theory Spec2Isabelle
  imports Complex_Main "HOL-Library.List_Lexorder" "HOL-Library.Char_ord" "HOL-Library.Word"
begin

section \<open>Common JavaScript notions\<close>

text \<open>
  A value thrown by JavaScript code. \<open>Error m\<close> is an instance of \<open>Error\<close> (or of a
  subclass such as \<open>SyntaxError\<close> or \<open>DOMException\<close>) with message \<open>m\<close>; \<open>Thrown\<close> is
  any thrown value for which \<open>instanceof Error\<close> is false. A call that may throw, and
  a promise that may reject, return \<open>exn + 'a\<close> with \<open>Inl\<close> for the thrown value.
\<close>

datatype exn = Error string | Thrown

text \<open>The contents of an \<open>ArrayBuffer\<close> or \<open>Uint8Array\<close>.\<close>

type_synonym bytes = "8 word list"

text \<open>
  A JavaScript number where its kind matters (the keys of \<open>cropData\<close>, read back by
  \<open>Number\<close>): a finite value, taken as a rational, \<open>NaN\<close>, or one of the infinities.
  \<open>minus_one x\<close> is \<open>x - 1\<close>, \<open>less_zero x\<close> is \<open>x < 0\<close> and \<open>at_least x n\<close> is
  \<open>x >= n\<close> for a length \<open>n\<close>; every comparison with \<open>NaN\<close> is false.
\<close>

datatype number = Finite rat | NaN | PosInfinity | NegInfinity

fun minus_one :: "number \<Rightarrow> number" where
  "minus_one (Finite q) = Finite (q - 1)"
| "minus_one NaN = NaN"
| "minus_one PosInfinity = PosInfinity"
| "minus_one NegInfinity = NegInfinity"

fun less_zero :: "number \<Rightarrow> bool" where
  "less_zero (Finite q) = (q < 0)"
| "less_zero NaN = False"
| "less_zero PosInfinity = False"
| "less_zero NegInfinity = True"

fun at_least :: "number \<Rightarrow> nat \<Rightarrow> bool" where
  "at_least (Finite q) n = (of_nat n \<le> q)"
| "at_least NaN n = False"
| "at_least PosInfinity n = True"
| "at_least NegInfinity n = False"

text \<open>
  \<open>xs[x]\<close> on an array: only a whole number from 0 on is the index of an element;
  for every other number the element is \<open>undefined\<close>.
\<close>

fun array_index :: "number \<Rightarrow> nat option" where
  "array_index (Finite q) = (if 0 \<le> q \<and> q = of_int \<lfloor>q\<rfloor> then Some (nat \<lfloor>q\<rfloor>) else None)"
| "array_index NaN = None"
| "array_index PosInfinity = None"
| "array_index NegInfinity = None"

section \<open>Recent files (src/lib/storage/recent-files.ts)\<close>

record RecentFile =
  id_rf :: string
  name_rf :: string
  size_rf :: nat
  processedAt :: string
  toolUsed :: string
  toolName_rf :: "string option"

definition MAX_RECENT_FILES :: nat where
  "MAX_RECENT_FILES = 10"

text \<open>
  The string kept under \<open>STORAGE_KEY\<close> is represented by what \<open>JSON.parse\<close> makes of it:
  \<open>NotJSON s\<close> is a string \<open>s\<close> that is not valid JSON (the empty string is one), and
  \<open>JSONText v\<close> is the JSON text of the value \<open>v\<close>, so that \<open>JSON.stringify v\<close> is
  \<open>JSONText v\<close> and parsing it gives \<open>v\<close> back. A parsed value is either an array,
  whose elements the source casts to \<open>RecentFile\<close> without looking at them, or any
  other JSON value (\<open>null\<close>, a number, a string, an object).
\<close>

datatype json = JArray "RecentFile list" | JOther

datatype item = NotJSON string | JSONText json

text \<open>
  The browser's \<open>localStorage\<close> as these functions see it. The probe of
  \<open>isLocalStorageAvailable\<close> writes and removes the key \<open>__storage_test__\<close>, which is
  not \<open>STORAGE_KEY\<close>, so only the outcome of the probe is kept.
\<close>

record storage =
  window_defined :: bool
  probe_throws :: bool
  getItem_throws :: bool
  setItem_throws :: bool
  stored :: "item option"

definition isLocalStorageAvailable :: "storage \<Rightarrow> bool" where
  "isLocalStorageAvailable st =
     (if \<not> window_defined st then False
      else if probe_throws st then False
      else True)"

definition JSON_parse :: "item \<Rightarrow> exn + json" where
  "JSON_parse it = (case it of NotJSON s \<Rightarrow> Inl (Error ''SyntaxError'') | JSONText v \<Rightarrow> Inr v)"

definition JSON_stringify :: "RecentFile list \<Rightarrow> item" where
  "JSON_stringify fs = JSONText (JArray fs)"

text \<open>The body of the \<open>try\<close> block of \<open>getRecentFiles\<close>.\<close>

definition getRecentFiles_try :: "storage \<Rightarrow> exn + RecentFile list" where
  "getRecentFiles_try st =
     (if getItem_throws st then Inl (Error ''SecurityError'')
      else case stored st of
        None \<Rightarrow> Inr []
      | Some it \<Rightarrow>
          if it = NotJSON [] then Inr []
          else (case JSON_parse it of
                  Inl e \<Rightarrow> Inl e
                | Inr v \<Rightarrow> Inr (case v of JArray fs \<Rightarrow> fs | JOther \<Rightarrow> [])))"

definition getRecentFiles :: "storage \<Rightarrow> RecentFile list" where
  "getRecentFiles st =
     (if \<not> isLocalStorageAvailable st then []
      else case getRecentFiles_try st of Inl e \<Rightarrow> [] | Inr fs \<Rightarrow> fs)"

text \<open>
  \<open>addRecentFile\<close>: \<open>gid\<close> is the string \<open>generateId()\<close> returns and \<open>now\<close> the
  string \<open>new Date().toISOString()\<close> returns at the call. The result is the new entry
  and the storage after the call.
\<close>

definition addRecentFile ::
  "storage \<Rightarrow> string \<Rightarrow> string \<Rightarrow> string \<Rightarrow> nat \<Rightarrow> string \<Rightarrow> string option
    \<Rightarrow> RecentFile \<times> storage" where
  "addRecentFile st gid now name sz tool tname =
     (let newFile = \<lparr>id_rf = gid, name_rf = name, size_rf = sz, processedAt = now,
                      toolUsed = tool, toolName_rf = tname\<rparr>
      in if \<not> isLocalStorageAvailable st then (newFile, st)
         else
           let files = getRecentFiles st;
               filtered = filter (\<lambda>f. \<not> (name_rf f = name \<and> toolUsed f = tool)) files;
               updated = take MAX_RECENT_FILES (newFile # filtered)
           in if setItem_throws st then (newFile, st)
              else (newFile, st\<lparr>stored := Some (JSON_stringify updated)\<rparr>))"

text \<open>
  A sequence of \<open>addRecentFile\<close> calls, oldest first. Each call is given by the entry
  it constructs: its fields are the arguments of the call and the two strings the
  environment supplies.
\<close>

fun addRecentFiles :: "storage \<Rightarrow> RecentFile list \<Rightarrow> storage" where
  "addRecentFiles st [] = st"
| "addRecentFiles st (e # es) =
     addRecentFiles
       (snd (addRecentFile st (id_rf e) (processedAt e) (name_rf e) (size_rf e)
               (toolUsed e) (toolName_rf e))) es"

definition same_file :: "RecentFile \<Rightarrow> RecentFile \<Rightarrow> bool" where
  "same_file e f = (name_rf f = name_rf e \<and> toolUsed f = toolUsed e)"

definition storage_works :: "storage \<Rightarrow> bool" where
  "storage_works st =
     (window_defined st \<and> \<not> probe_throws st \<and> \<not> getItem_throws st \<and> \<not> setItem_throws st)"

section \<open>Project store (src/lib/storage/project-db.ts)\<close>

datatype project_status = in_progress | paused | completed

record ProjectFileMetadata =
  name_fm :: string
  size_fm :: nat
  type_fm :: string
  lastModified :: nat

text \<open>
  \<open>options\<close> is a \<open>Record<string, unknown>\<close>: its values are kept as opaque strings.
  \<open>progress\<close> is a JavaScript number.
\<close>

record ProjectState =
  id_ps :: string
  name_ps :: string
  toolId :: string
  toolName_ps :: "string option"
  createdAt :: string
  updatedAt :: string
  status :: project_status
  options :: "(string \<times> string) list"
  fileMetadata :: "ProjectFileMetadata list"
  progress :: rat

text \<open>
  \<open>Partial<Omit<ProjectState, 'id' | 'createdAt'>>\<close>: every remaining field may be
  absent (\<open>None\<close>). The type has no \<open>id\<close> and no \<open>createdAt\<close>; it does have
  \<open>updatedAt\<close>.
\<close>

record ProjectUpdates =
  u_name :: "string option"
  u_toolId :: "string option"
  u_toolName :: "string option"
  u_updatedAt :: "string option"
  u_status :: "project_status option"
  u_options :: "(string \<times> string) list option"
  u_fileMetadata :: "ProjectFileMetadata list option"
  u_progress :: "rat option"

text \<open>
  The IndexedDB engine as \<open>updateProject\<close> sees it: whether \<open>window.indexedDB\<close>
  exists, whether the open, get and put requests fire \<open>onerror\<close>, and the object
  store \<open>projects\<close>, whose key path is \<open>id\<close>.
\<close>

record idb =
  indexedDB_defined :: bool
  open_fails :: bool
  get_fails :: bool
  put_fails :: bool
  projects :: "string \<rightharpoonup> ProjectState"

definition openDatabase :: "idb \<Rightarrow> exn + unit" where
  "openDatabase db =
     (if \<not> indexedDB_defined db then Inl (Error ''IndexedDB not available'')
      else if open_fails db then Inl (Error ''Failed to open database'')
      else Inr ())"

text \<open>The object spread \<open>{ ...existing, ...updates }\<close>.\<close>

definition spread_updates :: "ProjectState \<Rightarrow> ProjectUpdates \<Rightarrow> ProjectState" where
  "spread_updates existing updates =
     \<lparr>id_ps = id_ps existing,
      name_ps = (case u_name updates of None \<Rightarrow> name_ps existing | Some v \<Rightarrow> v),
      toolId = (case u_toolId updates of None \<Rightarrow> toolId existing | Some v \<Rightarrow> v),
      toolName_ps = (case u_toolName updates of None \<Rightarrow> toolName_ps existing | Some v \<Rightarrow> Some v),
      createdAt = createdAt existing,
      updatedAt = (case u_updatedAt updates of None \<Rightarrow> updatedAt existing | Some v \<Rightarrow> v),
      status = (case u_status updates of None \<Rightarrow> status existing | Some v \<Rightarrow> v),
      options = (case u_options updates of None \<Rightarrow> options existing | Some v \<Rightarrow> v),
      fileMetadata =
        (case u_fileMetadata updates of None \<Rightarrow> fileMetadata existing | Some v \<Rightarrow> v),
      progress = (case u_progress updates of None \<Rightarrow> progress existing | Some v \<Rightarrow> v)\<rparr>"

text \<open>
  \<open>updateProject\<close>: \<open>now\<close> is the string \<open>new Date().toISOString()\<close> returns inside
  the \<open>onsuccess\<close> handler of the get request. The result is what the promise
  settles with (\<open>Inl\<close> a rejection, \<open>Inr None\<close> for \<open>null\<close>) and the database after
  the call. \<open>store.put\<close> files the record under its key path, the \<open>id\<close> field.
\<close>

definition updateProject ::
  "idb \<Rightarrow> string \<Rightarrow> string \<Rightarrow> ProjectUpdates \<Rightarrow> (exn + ProjectState option) \<times> idb" where
  "updateProject db now pid updates =
     (case openDatabase db of
        Inl e \<Rightarrow> (Inl e, db)
      | Inr _ \<Rightarrow>
          if get_fails db then (Inl (Error ''Failed to get project''), db)
          else (case projects db pid of
                  None \<Rightarrow> (Inr None, db)
                | Some existing \<Rightarrow>
                    let updated = (spread_updates existing updates)\<lparr>updatedAt := now\<rparr>
                    in if put_fails db then (Inl (Error ''Failed to update project''), db)
                       else (Inr (Some updated),
                             db\<lparr>projects := (projects db)(id_ps updated \<mapsto> updated)\<rparr>)))"

section \<open>Font cache (src/lib/pdf/processors/text-to-pdf.ts)\<close>

text \<open>
  The two tiers: the module-level \<open>fontCache\<close> map and the object store \<open>fonts\<close> of
  the IndexedDB database. Both hold \<open>ArrayBuffer\<close>s, which are truthy whatever their
  length.
\<close>

record font_state =
  fontCache :: "string \<rightharpoonup> bytes"
  fontDB :: "string \<rightharpoonup> bytes"

text \<open>What \<open>fetch\<close> resolves with: \<open>response.ok\<close> and the outcome of \<open>response.arrayBuffer()\<close>.\<close>

record response =
  ok :: bool
  arrayBuffer :: "exn + bytes"

text \<open>
  The environment of one \<open>loadFont\<close> call: whether \<open>openFontDB\<close> rejects, whether the
  \<open>get\<close> and \<open>put\<close> requests fire \<open>onerror\<close>, and what \<open>fetch(url)\<close> settles with.
\<close>

record font_env =
  openFontDB_error :: "exn option"
  get_error :: "exn option"
  put_error :: "exn option"
  fetch :: "string \<Rightarrow> exn + response"

definition openFontDB :: "font_env \<Rightarrow> exn + unit" where
  "openFontDB env = (case openFontDB_error env of Some e \<Rightarrow> Inl e | None \<Rightarrow> Inr ())"

text \<open>
  \<open>getCachedFontFromDB\<close> and \<open>saveFontToDB\<close> await \<open>openFontDB()\<close> inside their \<open>try\<close>,
  so its rejection is caught. The promise of the request is returned from the \<open>try\<close>
  block without \<open>await\<close>: an \<open>async\<close> function settles with the promise it returns,
  and the \<open>catch\<close> clause never sees that promise's rejection.
\<close>

definition getCachedFontFromDB :: "font_env \<Rightarrow> font_state \<Rightarrow> string \<Rightarrow> exn + bytes option" where
  "getCachedFontFromDB env st fontId =
     (case openFontDB env of
        Inl e \<Rightarrow> Inr None
      | Inr _ \<Rightarrow>
          (case get_error env of
             Some e \<Rightarrow> Inl e
           | None \<Rightarrow> Inr (fontDB st fontId)))"

definition saveFontToDB ::
  "font_env \<Rightarrow> font_state \<Rightarrow> string \<Rightarrow> bytes \<Rightarrow> (exn + unit) \<times> font_state" where
  "saveFontToDB env st fontId fontBuffer =
     (case openFontDB env of
        Inl e \<Rightarrow> (Inr (), st)
      | Inr _ \<Rightarrow>
          (case put_error env of
             Some e \<Rightarrow> (Inl e, st)
           | None \<Rightarrow> (Inr (), st\<lparr>fontDB := (fontDB st)(fontId \<mapsto> fontBuffer)\<rparr>)))"

definition loadFont ::
  "font_env \<Rightarrow> font_state \<Rightarrow> string \<Rightarrow> string \<Rightarrow> (exn + bytes) \<times> font_state" where
  "loadFont env st fontId url =
     (case fontCache st fontId of
        Some b \<Rightarrow> (Inr b, st)
      | None \<Rightarrow>
          (case getCachedFontFromDB env st fontId of
             Inl e \<Rightarrow> (Inl e, st)
           | Inr (Some cachedFont) \<Rightarrow>
               (Inr cachedFont, st\<lparr>fontCache := (fontCache st)(fontId \<mapsto> cachedFont)\<rparr>)
           | Inr None \<Rightarrow>
               (case fetch env url of
                  Inl e \<Rightarrow> (Inl e, st)
                | Inr resp \<Rightarrow>
                    if \<not> ok resp then (Inl (Error (''Failed to load font: '' @ fontId)), st)
                    else (case arrayBuffer resp of
                            Inl e \<Rightarrow> (Inl e, st)
                          | Inr buffer \<Rightarrow>
                              let st1 = st\<lparr>fontCache := (fontCache st)(fontId \<mapsto> buffer)\<rparr>
                              in (case saveFontToDB env st1 fontId buffer of
                                    (Inl e, st2) \<Rightarrow> (Inl e, st2)
                                  | (Inr _, st2) \<Rightarrow> (Inr buffer, st2))))))"

text \<open>Emptying the in-memory tier, as a new session or an eviction does.\<close>

definition evict_memory :: "font_state \<Rightarrow> font_state" where
  "evict_memory st = st\<lparr>fontCache := Map.empty\<rparr>"

section \<open>The processor contract\<close>

text \<open>
  Modelled from the spec: the error codes of \<open>PDFErrorCode\<close> (the enum lives in
  \<open>types/pdf\<close>, which is not among the sources); these are the kinds the spec's error
  taxonomy lists and the processors use.
\<close>

datatype PDFErrorCode =
  INVALID_OPTIONS | PDF_ENCRYPTED | PDF_MALFORMED | PROCESSING_CANCELLED | PROCESSING_FAILED

text \<open>A \<open>Blob\<close>: its bytes and its media type.\<close>

datatype blob = Blob bytes string

datatype meta = MNum nat | MBool bool | MStrings "string list"

text \<open>
  Modelled from the spec: \<open>ProcessOutput\<close> (declared in \<open>types/pdf\<close>), the tagged union
  \<open>Success{blob, filename, metadata}\<close> or \<open>Failure{code, message, details?}\<close>.
\<close>

datatype ProcessOutput =
  Success blob string "(string \<times> meta) list"
| Failure PDFErrorCode string "string option"

text \<open>
  Modelled from the spec: the helpers of \<open>BasePDFProcessor\<close> (\<open>../processor\<close> is not
  among the sources). \<open>createErrorOutput\<close> and \<open>createSuccessOutput\<close> build the two
  results. \<open>updateProgress\<close> invokes the observer synchronously with the percentage and
  the phase label: a \<open>progress_log\<close> is the sequence of these calls, oldest first, and
  \<open>reset\<close> starts an invocation with the empty log. \<open>checkCancelled\<close> polls the
  cancellation flag, which a caller may set at any suspension point: the environment
  says what the \<open>k\<close>-th poll of an invocation reads (\<open>cancelled_at env k\<close>).
\<close>

type_synonym progress_log = "(rat \<times> string) list"

definition createErrorOutput :: "PDFErrorCode \<Rightarrow> string \<Rightarrow> string option \<Rightarrow> ProcessOutput" where
  "createErrorOutput code message details = Failure code message details"

definition createSuccessOutput :: "blob \<Rightarrow> string \<Rightarrow> (string \<times> meta) list \<Rightarrow> ProcessOutput" where
  "createSuccessOutput b filename metadata = Success b filename metadata"

definition updateProgress :: "rat \<Rightarrow> string \<Rightarrow> progress_log \<Rightarrow> progress_log" where
  "updateProgress percent message plog = plog @ [(percent, message)]"

text \<open>\<open>error instanceof Error ? error.message : 'Unknown error'\<close>\<close>

definition error_message :: "exn \<Rightarrow> string" where
  "error_message e = (case e of Error m \<Rightarrow> m | Thrown \<Rightarrow> ''Unknown error'')"

text \<open>A \<open>File\<close>: its name and what \<open>arrayBuffer()\<close> and \<open>text()\<close> settle with.\<close>

record File =
  name_file :: string
  arrayBuffer_file :: "exn + bytes"
  text_file :: "exn + string"

subsection \<open>Strings\<close>

text \<open>A number in decimal, as a template literal prints it.\<close>

definition digit_char :: "nat \<Rightarrow> char" where
  "digit_char d = ''0123456789'' ! d"

fun string_of_nat :: "nat \<Rightarrow> string" where
  "string_of_nat n =
     (if 10 \<le> n then string_of_nat (n div 10) @ [digit_char (n mod 10)]
      else [digit_char n])"

declare string_of_nat.simps [simp del]

definition string_of_int :: "int \<Rightarrow> string" where
  "string_of_int i =
     (if 0 \<le> i then string_of_nat (nat i)
      else CHR ''-'' # string_of_nat (nat (- i)))"

text \<open>
  A number in a template literal. A finite number is printed here as its whole part:
  the one call prints a page number that has passed \<open>array_index\<close>, a whole number.
\<close>

definition string_of_number :: "number \<Rightarrow> string" where
  "string_of_number x =
     (case x of
        Finite q \<Rightarrow> string_of_int \<lfloor>q\<rfloor>
      | NaN \<Rightarrow> ''NaN''
      | PosInfinity \<Rightarrow> ''Infinity''
      | NegInfinity \<Rightarrow> ''-Infinity'')"

text \<open>\<open>s.includes(sub)\<close>\<close>

definition includes_str :: "string \<Rightarrow> string \<Rightarrow> bool" where
  "includes_str s sub = list_ex (\<lambda>i. take (length sub) (drop i s) = sub) [0..<Suc (length s)]"

text \<open>
  \<open>s.replace(pat, rep)\<close> with a string pattern: the first occurrence of \<open>pat\<close> is
  replaced (\<open>rep\<close> holds no \<open>$\<close> in the callers here).
\<close>

fun replace_first :: "string \<Rightarrow> string \<Rightarrow> string \<Rightarrow> string" where
  "replace_first [] pat rep = (if pat = [] then rep else [])"
| "replace_first (c # cs) pat rep =
     (if take (length pat) (c # cs) = pat then rep @ drop (length pat) (c # cs)
      else c # replace_first cs pat rep)"

subsection \<open>The PDF library at its interface\<close>

text \<open>
  A page as \<open>crop.ts\<close> uses it: \<open>getSize()\<close> and the crop box \<open>setCropBox\<close> writes.
  JavaScript numbers are taken as rationals: no property below depends on rounding.
\<close>

record pdf_page =
  page_width :: rat
  page_height :: rat
  cropBox :: "(rat \<times> rat \<times> rat \<times> rat) option"

text \<open>
  A loaded \<open>PDFDocument\<close>: its pages, and everything else the library holds of it
  (catalog, info dictionary, form, annotations, fonts, content), which stays opaque.
\<close>

record 'r pdf_doc =
  pages :: "pdf_page list"
  objects :: 'r

text \<open>
  The environment of one \<open>process\<close> call: the cancellation flag at each poll, the
  outcome of \<open>loadPdfLib()\<close>, and the operations of the PDF library the processors call.
  An operation that throws leaves the document as it was before the call.
  \<^item> \<open>getPage_error\<close>: what \<open>pdf.getPage(index).getSize()\<close> throws when \<open>index\<close> has
    passed the range test of the crop loop and is not the index of a page (not a whole
    number): the library refuses an index beyond the last page, and for the others
    \<open>pages[index]\<close> is \<open>undefined\<close>, whose \<open>getSize\<close> cannot be called.
  \<^item> \<open>getFields\<close>: \<open>pdfDoc.getForm().getFields().length\<close>; \<open>flatten\<close>: \<open>form.flatten()\<close>.
  \<^item> \<open>catalog_has\<close>, \<open>catalog_delete\<close>: \<open>has\<close> and \<open>delete\<close> on \<open>pdfDoc.catalog.dict\<close>.
  \<^item> \<open>catalog_get_Names\<close>: whether \<open>catalogDict.get(PDFName.of('Names'))\<close> is truthy;
    \<open>names_has\<close>, \<open>names_delete\<close>: \<open>has\<close> and \<open>delete\<close> on the dictionary it refers to.
  \<^item> \<open>clear_info\<close>: \<open>getInfoDict()\<close> and the deletion of all its keys; \<open>set_info\<close>: the
    six setters from \<open>setTitle\<close> to \<open>setProducer\<close>.
  \<^item> \<open>page_has\<close>, \<open>page_delete\<close>: \<open>has\<close> and \<open>delete\<close> on \<open>page.node\<close> of the page
    with the given index; \<open>page_get_Annots\<close>: the references in its \<open>Annots\<close> array, if
    it has one; \<open>page_set_Annots\<close> replaces the array; \<open>annot_subtype\<close>: the \<open>Subtype\<close>
    of the annotation a reference leads to, without its slash.
  \<^item> \<open>create\<close>, \<open>embedStandardFont\<close>, \<open>import_fontkit\<close>, \<open>embedFont\<close>: what
    \<open>text-to-pdf.ts\<close> calls before it lays the text out.
  \<^item> \<open>createPdfFromText\<close>: the layout method of \<open>TextToPDFProcessor\<close>; it reports no
    progress and polls no cancellation, and only whether it throws is kept.
\<close>

record 'r pdf_env =
  cancelled_at :: "nat \<Rightarrow> bool"
  loadPdfLib :: "exn option"
  PDFDocument_load :: "bytes \<Rightarrow> exn + 'r pdf_doc"
  save :: "'r pdf_doc \<Rightarrow> exn + bytes"
  getPage_error :: "number \<Rightarrow> exn"
  getFields :: "'r pdf_doc \<Rightarrow> exn + nat"
  flatten :: "'r pdf_doc \<Rightarrow> exn + 'r pdf_doc"
  catalog_has :: "'r pdf_doc \<Rightarrow> string \<Rightarrow> exn + bool"
  catalog_delete :: "'r pdf_doc \<Rightarrow> string \<Rightarrow> exn + 'r pdf_doc"
  catalog_get_Names :: "'r pdf_doc \<Rightarrow> exn + bool"
  names_has :: "'r pdf_doc \<Rightarrow> string \<Rightarrow> exn + bool"
  names_delete :: "'r pdf_doc \<Rightarrow> string \<Rightarrow> exn + 'r pdf_doc"
  clear_info :: "'r pdf_doc \<Rightarrow> exn + 'r pdf_doc"
  set_info :: "'r pdf_doc \<Rightarrow> exn + 'r pdf_doc"
  page_has :: "'r pdf_doc \<Rightarrow> nat \<Rightarrow> string \<Rightarrow> exn + bool"
  page_delete :: "'r pdf_doc \<Rightarrow> nat \<Rightarrow> string \<Rightarrow> exn + 'r pdf_doc"
  page_get_Annots :: "'r pdf_doc \<Rightarrow> nat \<Rightarrow> exn + nat list option"
  page_set_Annots :: "'r pdf_doc \<Rightarrow> nat \<Rightarrow> nat list \<Rightarrow> exn + 'r pdf_doc"
  annot_subtype :: "'r pdf_doc \<Rightarrow> nat \<Rightarrow> exn + string option"
  create :: "exn + 'r pdf_doc"
  embedStandardFont :: "'r pdf_doc \<Rightarrow> string \<Rightarrow> exn + 'r pdf_doc"
  import_fontkit :: "exn option"
  embedFont :: "'r pdf_doc \<Rightarrow> bytes \<Rightarrow> exn + 'r pdf_doc"
  createPdfFromText :: "'r pdf_doc \<Rightarrow> string \<Rightarrow> exn + 'r pdf_doc"

section \<open>Crop (src/lib/pdf/processors/crop.ts)\<close>

record CropData =
  crop_x :: rat
  crop_y :: rat
  crop_width :: rat
  crop_height :: rat

datatype crop_mode = destructive | metadata

text \<open>
  \<open>cropData\<close> is a \<open>Record<number, CropData>\<close>, kept as its entries in the order
  \<open>Object.keys\<close> lists them, each key as the number \<open>Number\<close> reads back from it: any
  JavaScript number can be a key. \<open>None\<close> is a missing \<open>cropData\<close>, \<open>None\<close> for
  \<open>mode\<close> a missing \<open>mode\<close>.
\<close>

record CropOptions =
  cropData :: "(number \<times> CropData) list option"
  mode :: "crop_mode option"

text \<open>
  What one iteration does to the page it crops: \<open>getSize()\<close>, the crop box in PDF
  coordinates (origin at the bottom left) from the fractions of the visual cropper
  (origin at the top left), and \<open>setCropBox\<close>.
\<close>

definition crop_page :: "pdf_page \<Rightarrow> CropData \<Rightarrow> pdf_page" where
  "crop_page page crop =
     (let w = page_width page;
          h = page_height page;
          cropW = crop_width crop * w;
          cropH = crop_height crop * h;
          cropX = crop_x crop * w;
          cropY = h - (crop_y crop * h) - cropH
      in page\<lparr>cropBox := Some (cropX, cropY, cropW, cropH)\<rparr>)"

text \<open>
  The \<open>for\<close> loop of \<open>performMetadataCrop\<close>, from index \<open>i\<close> on, over the page
  numbers still to visit. The poll of the cancellation flag in iteration \<open>i\<close> is the
  poll \<open>i\<close> of the invocation. \<open>cropData[pageNum]\<close> is read before the range test and
  used after \<open>getPage\<close> and \<open>getSize\<close>; reading a property of \<open>undefined\<close> throws a
  \<open>TypeError\<close>.
\<close>

fun crop_loop ::
  "'r pdf_env \<Rightarrow> (number \<times> CropData) list \<Rightarrow> nat \<Rightarrow> number list \<Rightarrow> nat \<Rightarrow> 'r pdf_doc
    \<Rightarrow> progress_log \<Rightarrow> (exn + 'r pdf_doc) \<times> progress_log" where
  "crop_loop env cd totalToProcess [] i pdf plog = (Inr pdf, plog)"
| "crop_loop env cd totalToProcess (pageNum # rest) i pdf plog =
     (if cancelled_at env i then (Inl (Error ''Processing cancelled''), plog)
      else
        let crop = map_of cd pageNum;
            pageIndex = minus_one pageNum
        in if less_zero pageIndex \<or> at_least pageIndex (length (pages pdf))
           then crop_loop env cd totalToProcess rest (Suc i) pdf plog
           else
             (case array_index pageIndex of
                None \<Rightarrow> (Inl (getPage_error env pageIndex), plog)
              | Some j \<Rightarrow>
                  (case crop of
                     None \<Rightarrow> (Inl (Error ''TypeError''), plog)
                   | Some c \<Rightarrow>
                       let page = pages pdf ! j;
                           pdf' = pdf\<lparr>pages := (pages pdf)[j := crop_page page c]\<rparr>
                       in crop_loop env cd totalToProcess rest (Suc i) pdf'
                            (updateProgress (30 + (60 * of_nat (i + 1) / of_nat totalToProcess))
                               (''Cropping page '' @ string_of_number pageNum @ ''...'') plog))))"

definition performMetadataCrop ::
  "'r pdf_env \<Rightarrow> bytes \<Rightarrow> (number \<times> CropData) list \<Rightarrow> progress_log
    \<Rightarrow> (exn + bytes) \<times> progress_log" where
  "performMetadataCrop env buf cd plog =
     (case PDFDocument_load env buf of
        Inl e \<Rightarrow> (Inl e, plog)
      | Inr pdf \<Rightarrow>
          let pageNumbers = map fst cd;
              totalToProcess = length pageNumbers
          in (case crop_loop env cd totalToProcess pageNumbers 0 pdf plog of
                (Inl e, plog') \<Rightarrow> (Inl e, plog')
              | (Inr pdf', plog') \<Rightarrow> (save env pdf', plog')))"

definition performDestructiveCrop ::
  "'r pdf_env \<Rightarrow> bytes \<Rightarrow> (number \<times> CropData) list \<Rightarrow> progress_log
    \<Rightarrow> (exn + bytes) \<times> progress_log" where
  "performDestructiveCrop env buf cd plog = performMetadataCrop env buf cd plog"

text \<open>The \<open>try\<close> block of \<open>CropProcessor.process\<close>.\<close>

definition crop_try ::
  "'r pdf_env \<Rightarrow> File \<Rightarrow> CropOptions \<Rightarrow> (number \<times> CropData) list
    \<Rightarrow> (exn + ProcessOutput) \<times> progress_log" where
  "crop_try env f cropOptions cd =
     (let plog1 = updateProgress 10 ''Loading PDF library...'' []
      in case loadPdfLib env of
           Some e \<Rightarrow> (Inl e, plog1)
         | None \<Rightarrow>
             let plog2 = updateProgress 20 ''Loading PDF...'' plog1
             in (case arrayBuffer_file f of
                   Inl e \<Rightarrow> (Inl e, plog2)
                 | Inr buf \<Rightarrow>
                     let isDestructive = (mode cropOptions = Some destructive)
                     in (case (if isDestructive then performDestructiveCrop env buf cd plog2
                               else performMetadataCrop env buf cd plog2) of
                           (Inl e, plog3) \<Rightarrow> (Inl e, plog3)
                         | (Inr pdfBytes, plog3) \<Rightarrow>
                             let plog4 = updateProgress 100 ''Complete!'' plog3;
                                 suffix = (if isDestructive then ''_cropped_flattened.pdf''
                                           else ''_cropped.pdf'');
                                 b = Blob pdfBytes ''application/pdf''
                             in (Inr (createSuccessOutput b
                                        (replace_first (name_file f) ''.pdf'' suffix)
                                        [(''pagesCropped'', MNum (length cd))]),
                                 plog4))))"

text \<open>
  \<open>CropProcessor.process\<close>: the result the promise resolves with, and the calls made
  to the progress observer.
\<close>

definition crop_process ::
  "'r pdf_env \<Rightarrow> File list \<Rightarrow> CropOptions \<Rightarrow> ProcessOutput \<times> progress_log" where
  "crop_process env files cropOptions =
     (if length files \<noteq> 1
      then (createErrorOutput INVALID_OPTIONS ''Exactly 1 PDF file is required.'' None, [])
      else
        (case cropData cropOptions of
           None \<Rightarrow> (createErrorOutput INVALID_OPTIONS ''Crop data is required.'' None, [])
         | Some cd \<Rightarrow>
             if length cd = 0
             then (createErrorOutput INVALID_OPTIONS ''Crop data is required.'' None, [])
             else
               (case crop_try env (files ! 0) cropOptions cd of
                  (Inl e, plog) \<Rightarrow>
                    (createErrorOutput PROCESSING_FAILED ''Failed to crop PDF.''
                       (Some (error_message e)), plog)
                | (Inr out, plog) \<Rightarrow> (out, plog))))"

section \<open>Sanitize (src/lib/pdf/processors/sanitize.ts)\<close>

record SanitizePDFOptions =
  removeJavaScript :: bool
  removeAttachments :: bool
  removeLinks :: bool
  flattenForms :: bool
  removeMetadata :: bool
  removeAnnotations :: bool

definition DEFAULT_SANITIZE_OPTIONS :: SanitizePDFOptions where
  "DEFAULT_SANITIZE_OPTIONS =
     \<lparr>removeJavaScript = True, removeAttachments = True, removeLinks = True,
      flattenForms = True, removeMetadata = True, removeAnnotations = False\<rparr>"

text \<open>\<open>Partial<SanitizePDFOptions>\<close>, and the spread of it over the defaults.\<close>

record SanitizePDFOptions_partial =
  p_removeJavaScript :: "bool option"
  p_removeAttachments :: "bool option"
  p_removeLinks :: "bool option"
  p_flattenForms :: "bool option"
  p_removeMetadata :: "bool option"
  p_removeAnnotations :: "bool option"

definition or_default :: "'a option \<Rightarrow> 'a \<Rightarrow> 'a" where
  "or_default v d = (case v of None \<Rightarrow> d | Some a \<Rightarrow> a)"

definition merge_sanitize_options :: "SanitizePDFOptions_partial \<Rightarrow> SanitizePDFOptions" where
  "merge_sanitize_options opts =
     \<lparr>removeJavaScript =
        or_default (p_removeJavaScript opts) (removeJavaScript DEFAULT_SANITIZE_OPTIONS),
      removeAttachments =
        or_default (p_removeAttachments opts) (removeAttachments DEFAULT_SANITIZE_OPTIONS),
      removeLinks = or_default (p_removeLinks opts) (removeLinks DEFAULT_SANITIZE_OPTIONS),
      flattenForms = or_default (p_flattenForms opts) (flattenForms DEFAULT_SANITIZE_OPTIONS),
      removeMetadata =
        or_default (p_removeMetadata opts) (removeMetadata DEFAULT_SANITIZE_OPTIONS),
      removeAnnotations =
        or_default (p_removeAnnotations opts) (removeAnnotations DEFAULT_SANITIZE_OPTIONS)\<rparr>"

text \<open>\<open>generateSanitizedFilename\<close>: the name up to its last dot, if it has one.\<close>

definition generateSanitizedFilename :: "string \<Rightarrow> string" where
  "generateSanitizedFilename originalName =
     (let r = rev originalName;
          ext = takeWhile (\<lambda>c. c \<noteq> CHR ''.'') r;
          baseName = (if length ext = length r then originalName
                      else rev (drop (length ext + 1) r))
      in baseName @ ''_sanitized.pdf'')"

text \<open>
  The sub-steps work on the document and on \<open>removedItems\<close>. Each definition is one
  \<open>try\<close> block of the source with its \<open>catch\<close> clause.
\<close>

definition flattenForms_catch ::
  "'r pdf_env \<Rightarrow> 'r pdf_doc \<Rightarrow> string list \<Rightarrow> 'r pdf_doc \<times> string list" where
  "flattenForms_catch env pdfDoc removedItems =
     (case catalog_has env pdfDoc ''AcroForm'' of
        Inl e \<Rightarrow> (pdfDoc, removedItems)
      | Inr h \<Rightarrow>
          if h then
            (case catalog_delete env pdfDoc ''AcroForm'' of
               Inl e \<Rightarrow> (pdfDoc, removedItems)
             | Inr d \<Rightarrow> (d, removedItems @ [''form fields'']))
          else (pdfDoc, removedItems))"

definition flattenForms_step ::
  "'r pdf_env \<Rightarrow> 'r pdf_doc \<Rightarrow> string list \<Rightarrow> 'r pdf_doc \<times> string list" where
  "flattenForms_step env pdfDoc removedItems =
     (case getFields env pdfDoc of
        Inl e \<Rightarrow> flattenForms_catch env pdfDoc removedItems
      | Inr n \<Rightarrow>
          if n > 0 then
            (case flatten env pdfDoc of
               Inl e \<Rightarrow> flattenForms_catch env pdfDoc removedItems
             | Inr d \<Rightarrow> (d, removedItems @ [''form fields (flattened)'']))
          else (pdfDoc, removedItems))"

text \<open>\<open>if (dict.has(name)) dict.delete(name)\<close> on the catalog; a throw escapes.\<close>

definition catalog_delete_if_has :: "'r pdf_env \<Rightarrow> 'r pdf_doc \<Rightarrow> string \<Rightarrow> exn + 'r pdf_doc" where
  "catalog_delete_if_has env pdfDoc name =
     (case catalog_has env pdfDoc name of
        Inl e \<Rightarrow> Inl e
      | Inr h \<Rightarrow> if h then catalog_delete env pdfDoc name else Inr pdfDoc)"

definition removeMetadata_step ::
  "'r pdf_env \<Rightarrow> 'r pdf_doc \<Rightarrow> string list \<Rightarrow> 'r pdf_doc \<times> string list" where
  "removeMetadata_step env pdfDoc removedItems =
     (case clear_info env pdfDoc of
        Inl e \<Rightarrow> (pdfDoc, removedItems)
      | Inr d1 \<Rightarrow>
          (case set_info env d1 of
             Inl e \<Rightarrow> (d1, removedItems)
           | Inr d2 \<Rightarrow>
               let d3 = (case catalog_delete_if_has env d2 ''Metadata'' of
                           Inl e \<Rightarrow> d2
                         | Inr d \<Rightarrow> d)
               in (d3, removedItems @ [''metadata''])))"

text \<open>A \<open>for (const page of pages)\<close> loop whose body is a \<open>try\<close> with an empty \<open>catch\<close>.\<close>

definition for_pages ::
  "'r pdf_doc \<Rightarrow> ('r pdf_doc \<Rightarrow> nat \<Rightarrow> exn + 'r pdf_doc) \<Rightarrow> 'r pdf_doc" where
  "for_pages pdfDoc body =
     foldl (\<lambda>d i. case body d i of Inl e \<Rightarrow> d | Inr d' \<Rightarrow> d') pdfDoc [0..<length (pages pdfDoc)]"

definition removeAnnotations_step ::
  "'r pdf_env \<Rightarrow> 'r pdf_doc \<Rightarrow> string list \<Rightarrow> 'r pdf_doc \<times> string list" where
  "removeAnnotations_step env pdfDoc removedItems =
     (for_pages pdfDoc (\<lambda>d i. page_delete env d i ''Annots''), removedItems @ [''annotations''])"

text \<open>The inner \<open>try\<close> on the \<open>Names\<close> dictionary: errors are ignored.\<close>

definition names_delete_if_has :: "'r pdf_env \<Rightarrow> 'r pdf_doc \<Rightarrow> string \<Rightarrow> 'r pdf_doc" where
  "names_delete_if_has env pdfDoc name =
     (case names_has env pdfDoc name of
        Inl e \<Rightarrow> pdfDoc
      | Inr h \<Rightarrow>
          if h then (case names_delete env pdfDoc name of Inl e \<Rightarrow> pdfDoc | Inr d \<Rightarrow> d)
          else pdfDoc)"

definition page_delete_if_has :: "'r pdf_env \<Rightarrow> string \<Rightarrow> 'r pdf_doc \<Rightarrow> nat \<Rightarrow> exn + 'r pdf_doc" where
  "page_delete_if_has env name pdfDoc i =
     (case page_has env pdfDoc i name of
        Inl e \<Rightarrow> Inl e
      | Inr h \<Rightarrow> if h then page_delete env pdfDoc i name else Inr pdfDoc)"

definition removeJavaScript_step ::
  "'r pdf_env \<Rightarrow> 'r pdf_doc \<Rightarrow> string list \<Rightarrow> 'r pdf_doc \<times> string list" where
  "removeJavaScript_step env pdfDoc removedItems =
     (case catalog_get_Names env pdfDoc of
        Inl e \<Rightarrow> (pdfDoc, removedItems)
      | Inr namesRef \<Rightarrow>
          let d1 = (if namesRef then names_delete_if_has env pdfDoc ''JavaScript'' else pdfDoc)
          in (case catalog_delete_if_has env d1 ''OpenAction'' of
                Inl e \<Rightarrow> (d1, removedItems)
              | Inr d2 \<Rightarrow>
                  (case catalog_delete_if_has env d2 ''AA'' of
                     Inl e \<Rightarrow> (d2, removedItems)
                   | Inr d3 \<Rightarrow>
                       (for_pages d3 (page_delete_if_has env ''AA''),
                        removedItems @ [''JavaScript'']))))"

definition removeAttachments_step ::
  "'r pdf_env \<Rightarrow> 'r pdf_doc \<Rightarrow> string list \<Rightarrow> 'r pdf_doc \<times> string list" where
  "removeAttachments_step env pdfDoc removedItems =
     (case catalog_get_Names env pdfDoc of
        Inl e \<Rightarrow> (pdfDoc, removedItems)
      | Inr namesRef \<Rightarrow>
          let d1 = (if namesRef then names_delete_if_has env pdfDoc ''EmbeddedFiles'' else pdfDoc)
          in (case catalog_delete_if_has env d1 ''Collection'' of
                Inl e \<Rightarrow> (d1, removedItems)
              | Inr d2 \<Rightarrow> (d2, removedItems @ [''embedded files''])))"

text \<open>The body of the per-page \<open>try\<close> of the link removal.\<close>

definition removeLinks_page :: "'r pdf_env \<Rightarrow> 'r pdf_doc \<Rightarrow> nat \<Rightarrow> exn + 'r pdf_doc" where
  "removeLinks_page env pdfDoc i =
     (case page_get_Annots env pdfDoc i of
        Inl e \<Rightarrow> Inl e
      | Inr None \<Rightarrow> Inr pdfDoc
      | Inr (Some annotRefs) \<Rightarrow>
          let annotsToKeep =
                filter (\<lambda>r. case annot_subtype env pdfDoc r of
                               Inl e \<Rightarrow> True
                             | Inr subtype \<Rightarrow> subtype \<noteq> Some ''Link'') annotRefs
          in if length annotsToKeep \<noteq> length annotRefs then
               (if length annotsToKeep > 0 then page_set_Annots env pdfDoc i annotsToKeep
                else page_delete env pdfDoc i ''Annots'')
             else Inr pdfDoc)"

definition removeLinks_step ::
  "'r pdf_env \<Rightarrow> 'r pdf_doc \<Rightarrow> string list \<Rightarrow> 'r pdf_doc \<times> string list" where
  "removeLinks_step env pdfDoc removedItems =
     (for_pages pdfDoc (removeLinks_page env), removedItems @ [''links''])"

definition when_step ::
  "bool \<Rightarrow> ('r pdf_doc \<Rightarrow> string list \<Rightarrow> 'r pdf_doc \<times> string list)
    \<Rightarrow> 'r pdf_doc \<times> string list \<Rightarrow> 'r pdf_doc \<times> string list" where
  "when_step opt step ds = (if opt then step (fst ds) (snd ds) else ds)"

definition cancelledOutput :: ProcessOutput where
  "cancelledOutput = createErrorOutput PROCESSING_CANCELLED ''Processing was cancelled.'' None"

text \<open>
  The \<open>try\<close> block of \<open>SanitizePDFProcessor.process\<close>, in three parts: up to the
  loaded document, the sub-steps, and the save. The polls of the cancellation flag
  are the polls 0, 1 and 2 of the invocation.
\<close>

definition sanitize_save ::
  "'r pdf_env \<Rightarrow> File \<Rightarrow> nat \<Rightarrow> 'r pdf_doc \<times> string list \<Rightarrow> nat \<Rightarrow> progress_log
    \<Rightarrow> (exn + ProcessOutput) \<times> progress_log" where
  "sanitize_save env f originalSize ds pageCount plog =
     (if cancelled_at env 2 then (Inr cancelledOutput, plog)
      else
        let plog9 = updateProgress 90 ''Saving sanitized PDF...'' plog
        in (case save env (fst ds) of
              Inl e \<Rightarrow> (Inl e, plog9)
            | Inr sanitizedPdfBytes \<Rightarrow>
                let b = Blob sanitizedPdfBytes ''application/pdf'';
                    newSize = length sanitizedPdfBytes;
                    plog10 = updateProgress 100 ''Complete!'' plog9;
                    outputFilename = generateSanitizedFilename (name_file f)
                in (Inr (createSuccessOutput b outputFilename
                           [(''pageCount'', MNum pageCount),
                            (''originalSize'', MNum originalSize),
                            (''newSize'', MNum newSize),
                            (''removedItems'', MStrings (snd ds)),
                            (''sanitized'', MBool True)]),
                    plog10)))"

definition sanitize_steps ::
  "'r pdf_env \<Rightarrow> File \<Rightarrow> SanitizePDFOptions \<Rightarrow> nat \<Rightarrow> 'r pdf_doc \<Rightarrow> progress_log
    \<Rightarrow> (exn + ProcessOutput) \<times> progress_log" where
  "sanitize_steps env f sanitizeOptions originalSize pdfDoc plog =
     (if cancelled_at env 1 then (Inr cancelledOutput, plog)
      else
        let plog3 = updateProgress 30 ''Analyzing PDF content...'' plog;
            pageCount = length (pages pdfDoc)
        in if pageCount = 0
           then (Inr (createErrorOutput PDF_MALFORMED ''The PDF file contains no pages.''
                        (Some ''Cannot sanitize an empty PDF.'')), plog3)
           else
             let plog4 = updateProgress 40 ''Sanitizing PDF content...'' plog3;
                 ds1 = when_step (flattenForms sanitizeOptions) (flattenForms_step env)
                         (pdfDoc, []);
                 plog5 = updateProgress 50 ''Removing metadata...'' plog4;
                 ds2 = when_step (removeMetadata sanitizeOptions) (removeMetadata_step env) ds1;
                 plog6 = updateProgress 60 ''Removing annotations...'' plog5;
                 ds3 = when_step (removeAnnotations sanitizeOptions)
                         (removeAnnotations_step env) ds2;
                 plog7 = updateProgress 70 ''Removing JavaScript...'' plog6;
                 ds4 = when_step (removeJavaScript sanitizeOptions)
                         (removeJavaScript_step env) ds3;
                 plog8 = updateProgress 80 ''Removing embedded files...'' plog7;
                 ds5 = when_step (removeAttachments sanitizeOptions)
                         (removeAttachments_step env) ds4;
                 ds6 = when_step (removeLinks sanitizeOptions) (removeLinks_step env) ds5
             in sanitize_save env f originalSize ds6 pageCount plog8)"

definition sanitize_try ::
  "'r pdf_env \<Rightarrow> File \<Rightarrow> SanitizePDFOptions \<Rightarrow> (exn + ProcessOutput) \<times> progress_log" where
  "sanitize_try env f sanitizeOptions =
     (let plog05 = updateProgress 5 ''Loading PDF library...'' []
      in case loadPdfLib env of
           Some e \<Rightarrow> (Inl e, plog05)
         | None \<Rightarrow>
             if cancelled_at env 0 then (Inr cancelledOutput, plog05)
             else
               let plog1 = updateProgress 10 ''Reading PDF file...'' plog05
               in (case arrayBuffer_file f of
                     Inl e \<Rightarrow> (Inl e, plog1)
                   | Inr buf \<Rightarrow>
                       let originalSize = length buf;
                           plog2 = updateProgress 20 ''Loading PDF document...'' plog1
                       in (case PDFDocument_load env buf of
                             Inl e \<Rightarrow>
                               (case e of
                                  Error m \<Rightarrow>
                                    if includes_str m ''encrypt''
                                    then (Inr (createErrorOutput PDF_ENCRYPTED
                                                 ''The PDF file is encrypted.''
                                                 (Some ''Please decrypt the file before sanitizing.'')),
                                          plog2)
                                    else (Inl e, plog2)
                                | Thrown \<Rightarrow> (Inl e, plog2))
                           | Inr pdfDoc \<Rightarrow>
                               sanitize_steps env f sanitizeOptions originalSize pdfDoc plog2)))"

definition sanitize_process ::
  "'r pdf_env \<Rightarrow> File list \<Rightarrow> SanitizePDFOptions_partial \<Rightarrow> ProcessOutput \<times> progress_log" where
  "sanitize_process env files opts =
     (let sanitizeOptions = merge_sanitize_options opts
      in if length files \<noteq> 1
         then (createErrorOutput INVALID_OPTIONS
                 ''Please provide exactly one PDF file to sanitize.''
                 (Some (''Received '' @ string_of_nat (length files) @ '' file(s).'')), [])
         else
           (case sanitize_try env (files ! 0) sanitizeOptions of
              (Inl e, plog) \<Rightarrow>
                (createErrorOutput PROCESSING_FAILED ''Failed to sanitize PDF file.''
                   (Some (error_message e)), plog)
            | (Inr out, plog) \<Rightarrow> (out, plog)))"

section \<open>Text to PDF (src/lib/pdf/processors/text-to-pdf.ts)\<close>

text \<open>
  An entry of \<open>AVAILABLE_FONTS\<close>: its \<open>id\<close> and its \<open>type\<close>; every entry of type
  \<open>noto\<close> has a \<open>url\<close>, carried here by the constructor. The display names are not
  used by the processor.
\<close>

datatype font_source = standard | noto string

record font_config =
  font_id :: string
  font_source :: font_source

definition AVAILABLE_FONTS :: "font_config list" where
  "AVAILABLE_FONTS =
     [\<lparr>font_id = ''helvetica'', font_source = standard\<rparr>,
      \<lparr>font_id = ''times'', font_source = standard\<rparr>,
      \<lparr>font_id = ''courier'', font_source = standard\<rparr>,
      \<lparr>font_id = ''noto-sans'', font_source = noto
         ''https://raw.githack.com/googlefonts/noto-fonts/main/hinted/ttf/NotoSans/NotoSans-Regular.ttf''\<rparr>,
      \<lparr>font_id = ''noto-sans-sc'', font_source = noto
         ''https://raw.githack.com/googlefonts/noto-cjk/main/Sans/OTF/SimplifiedChinese/NotoSansCJKsc-Regular.otf''\<rparr>,
      \<lparr>font_id = ''noto-sans-tc'', font_source = noto
         ''https://raw.githack.com/googlefonts/noto-cjk/main/Sans/OTF/TraditionalChinese/NotoSansCJKtc-Regular.otf''\<rparr>,
      \<lparr>font_id = ''noto-sans-jp'', font_source = noto
         ''https://raw.githack.com/googlefonts/noto-cjk/main/Sans/OTF/Japanese/NotoSansCJKjp-Regular.otf''\<rparr>,
      \<lparr>font_id = ''noto-sans-kr'', font_source = noto
         ''https://raw.githack.com/googlefonts/noto-cjk/main/Sans/OTF/Korean/NotoSansCJKkr-Regular.otf''\<rparr>,
      \<lparr>font_id = ''noto-sans-arabic'', font_source = noto
         ''https://raw.githack.com/googlefonts/noto-fonts/main/hinted/ttf/NotoSansArabic/NotoSansArabic-Regular.ttf''\<rparr>,
      \<lparr>font_id = ''noto-sans-hebrew'', font_source = noto
         ''https://raw.githack.com/googlefonts/noto-fonts/main/hinted/ttf/NotoSansHebrew/NotoSansHebrew-Regular.ttf''\<rparr>,
      \<lparr>font_id = ''noto-sans-thai'', font_source = noto
         ''https://raw.githack.com/googlefonts/noto-fonts/main/hinted/ttf/NotoSansThai/NotoSansThai-Regular.ttf''\<rparr>,
      \<lparr>font_id = ''noto-sans-devanagari'', font_source = noto
         ''https://raw.githack.com/googlefonts/noto-fonts/main/unhinted/ttf/NotoSansDevanagari/NotoSansDevanagari-Regular.ttf''\<rparr>]"

text \<open>
  The options \<open>process\<close> itself reads, as the caller's partial record gives them; the
  page size, orientation, font size, colours and margins only reach
  \<open>createPdfFromText\<close>. \<open>DEFAULT_OPTIONS\<close> has \<open>fontId: 'helvetica'\<close> and no
  \<open>directText\<close>.
\<close>

record TextToPDFOptions_partial =
  p_fontId :: "string option"
  p_directText :: "string option"

definition DEFAULT_fontId :: string where
  "DEFAULT_fontId = ''helvetica''"

text \<open>White space as \<open>trim\<close> removes it, within ASCII.\<close>

definition is_whitespace :: "char \<Rightarrow> bool" where
  "is_whitespace c = (c \<in> set [CHR '' '', CHR 0x09, CHR 0x0A, CHR 0x0B, CHR 0x0C, CHR 0x0D])"

text \<open>
  \<open>pdfOptions.directText && pdfOptions.directText.trim().length > 0\<close>;
  \<open>direct_text\<close> is the direct text when that test holds.
\<close>

definition direct_text :: "TextToPDFOptions_partial \<Rightarrow> string option" where
  "direct_text opts =
     (case p_directText opts of
        None \<Rightarrow> None
      | Some t \<Rightarrow> if list_ex (\<lambda>c. \<not> is_whitespace c) t then Some t else None)"

definition hasDirectText :: "TextToPDFOptions_partial \<Rightarrow> bool" where
  "hasDirectText opts = (direct_text opts \<noteq> None)"

definition find_font :: "string \<Rightarrow> font_config" where
  "find_font fid =
     (case find (\<lambda>f. font_id f = fid) AVAILABLE_FONTS of
        Some f \<Rightarrow> f
      | None \<Rightarrow> AVAILABLE_FONTS ! 0)"

definition standardFontName :: "string \<Rightarrow> string" where
  "standardFontName fid =
     (case map_of [(''helvetica'', ''Helvetica''), (''times'', ''TimesRoman''),
                   (''courier'', ''Courier'')] fid of
        Some n \<Rightarrow> n
      | None \<Rightarrow> ''Helvetica'')"

text \<open>The loop \<open>for (const file of files)\<close> that reads and joins the texts.\<close>

fun read_texts :: "File list \<Rightarrow> string \<Rightarrow> exn + string" where
  "read_texts [] combinedText = Inr combinedText"
| "read_texts (f # fs) combinedText =
     (case text_file f of
        Inl e \<Rightarrow> Inl e
      | Inr t \<Rightarrow> read_texts fs (combinedText @ t @ [CHR 0x0A, CHR 0x0A]))"

text \<open>
  \<open>name.replace(/\.[^/.]+$/, '')\<close>: the last dot and what follows it are removed
  when what follows is not empty and has no slash.
\<close>

definition strip_extension :: "string \<Rightarrow> string" where
  "strip_extension name =
     (let r = rev name;
          ext = takeWhile (\<lambda>c. c \<noteq> CHR ''.'') r
      in if length ext < length r \<and> ext \<noteq> [] \<and> CHR ''/'' \<notin> set ext
         then rev (drop (length ext + 1) r)
         else name)"

definition generateOutputFilename :: "File list \<Rightarrow> string" where
  "generateOutputFilename files =
     (if length files = 1 then strip_extension (name_file (files ! 0)) @ ''.pdf''
      else ''text_'' @ string_of_nat (length files) @ ''_files.pdf'')"

text \<open>
  The \<open>try\<close> block of \<open>TextToPDFProcessor.process\<close> in three parts: up to the created
  document, the font, and the pages and the save. The font cache is shared state,
  returned with the result.
\<close>

definition text_finish ::
  "'r pdf_env \<Rightarrow> File list \<Rightarrow> bool \<Rightarrow> 'r pdf_doc \<Rightarrow> string \<Rightarrow> progress_log
    \<Rightarrow> (exn + ProcessOutput) \<times> progress_log" where
  "text_finish env files direct pdfDoc combinedText plog =
     (let plog5 = updateProgress 50 ''Creating PDF pages...'' plog
      in case createPdfFromText env pdfDoc combinedText of
           Inl e \<Rightarrow> (Inl e, plog5)
         | Inr d \<Rightarrow>
             let plog9 = updateProgress 90 ''Saving PDF...'' plog5
             in (case save env d of
                   Inl e \<Rightarrow> (Inl e, plog9)
                 | Inr pdfBytes \<Rightarrow>
                     let b = Blob pdfBytes ''application/pdf'';
                         plog10 = updateProgress 100 ''Complete!'' plog9;
                         outputFilename = (if direct then ''from_text.pdf''
                                           else generateOutputFilename files)
                     in (Inr (createSuccessOutput b outputFilename
                                [(''pageCount'', MNum (length (pages d))),
                                 (''fileCount'', MNum (if direct then 0 else length files))]),
                         plog10)))"

definition text_font ::
  "'r pdf_env \<Rightarrow> font_env \<Rightarrow> font_state \<Rightarrow> font_config \<Rightarrow> 'r pdf_doc \<Rightarrow> progress_log
    \<Rightarrow> (exn + 'r pdf_doc) \<times> progress_log \<times> font_state" where
  "text_font env fenv fstate fontConfig pdfDoc plog =
     (case font_source fontConfig of
        standard \<Rightarrow>
          (embedStandardFont env pdfDoc (standardFontName (font_id fontConfig)), plog, fstate)
      | noto url \<Rightarrow>
          (case import_fontkit env of
             Some e \<Rightarrow> (Inl e, plog, fstate)
           | None \<Rightarrow>
               let plog3 = updateProgress 30 ''Downloading font...'' plog
               in (case loadFont fenv fstate (font_id fontConfig) url of
                     (Inl e, fstate') \<Rightarrow> (Inl e, plog3, fstate')
                   | (Inr fontBytes, fstate') \<Rightarrow>
                       let plog4 = updateProgress 40 ''Embedding font...'' plog3
                       in (embedFont env pdfDoc fontBytes, plog4, fstate'))))"

definition text_try ::
  "'r pdf_env \<Rightarrow> font_env \<Rightarrow> font_state \<Rightarrow> File list \<Rightarrow> TextToPDFOptions_partial
    \<Rightarrow> (exn + ProcessOutput) \<times> progress_log \<times> font_state" where
  "text_try env fenv fstate files opts =
     (let plog05 = updateProgress 5 ''Loading PDF library...'' []
      in case loadPdfLib env of
           Some e \<Rightarrow> (Inl e, plog05, fstate)
         | None \<Rightarrow>
             if cancelled_at env 0 then (Inr cancelledOutput, plog05, fstate)
             else
               let plog1 = updateProgress 10 ''Reading text...'' plog05
               in (case (case direct_text opts of
                           Some t \<Rightarrow> Inr t
                         | None \<Rightarrow> read_texts files []) of
                     Inl e \<Rightarrow> (Inl e, plog1, fstate)
                   | Inr combinedText \<Rightarrow>
                       let plog2 = updateProgress 20 ''Loading font...'' plog1
                       in (case create env of
                             Inl e \<Rightarrow> (Inl e, plog2, fstate)
                           | Inr pdfDoc \<Rightarrow>
                               let fontConfig =
                                     find_font (or_default (p_fontId opts) DEFAULT_fontId)
                               in (case text_font env fenv fstate fontConfig pdfDoc plog2 of
                                     (Inl e, plog4, fstate') \<Rightarrow> (Inl e, plog4, fstate')
                                   | (Inr d, plog4, fstate') \<Rightarrow>
                                       (case text_finish env files (hasDirectText opts) d
                                               combinedText plog4 of
                                          (r, plog10) \<Rightarrow> (r, plog10, fstate'))))))"

definition text_process ::
  "'r pdf_env \<Rightarrow> font_env \<Rightarrow> font_state \<Rightarrow> File list \<Rightarrow> TextToPDFOptions_partial
    \<Rightarrow> ProcessOutput \<times> progress_log \<times> font_state" where
  "text_process env fenv fstate files opts =
     (if length files < 1 \<and> \<not> hasDirectText opts
      then (createErrorOutput INVALID_OPTIONS
              ''At least 1 text file or direct text input is required.''
              (Some (''Received '' @ string_of_nat (length files) @ '' file(s) and no direct text.'')),
            [], fstate)
      else
        (case text_try env fenv fstate files opts of
           (Inl e, plog, fstate') \<Rightarrow>
             (createErrorOutput PROCESSING_FAILED ''Failed to convert text to PDF.''
                (Some (error_message e)), plog, fstate')
         | (Inr out, plog, fstate') \<Rightarrow> (out, plog, fstate')))"

text \<open>The percentages an observer receives.\<close>

definition percentages :: "progress_log \<Rightarrow> rat list" where
  "percentages plog = map fst plog"

section \<open>Derived notions and concrete inputs\<close>

text \<open>The list \<open>addRecentFile\<close> writes for the entry \<open>e\<close> when it has read \<open>fs\<close>.\<close>

definition add_entry :: "RecentFile list \<Rightarrow> RecentFile \<Rightarrow> RecentFile list" where
  "add_entry fs e = take MAX_RECENT_FILES (e # filter (\<lambda>f. \<not> same_file e f) fs)"

text \<open>Concrete inputs, for the examples that follow the theorems.\<close>

definition working_storage :: storage where
  "working_storage =
     \<lparr>window_defined = True, probe_throws = False, getItem_throws = False,
      setItem_throws = False, stored = None\<rparr>"

definition entry :: "string \<Rightarrow> string \<Rightarrow> RecentFile" where
  "entry n t =
     \<lparr>id_rf = ''1700000000000-'' @ n, name_rf = n @ ''.pdf'', size_rf = 1024,
      processedAt = ''2024-01-01T00:00:00.000Z'', toolUsed = t, toolName_rf = None\<rparr>"

definition eleven_entries :: "RecentFile list" where
  "eleven_entries = map (\<lambda>c. entry [c] ''merge-pdf'') ''abcdefghijk''"

definition two_entries_storage :: storage where
  "two_entries_storage =
     working_storage\<lparr>stored := Some (JSONText (JArray [entry ''a'' ''x'', entry ''b'' ''x'']))\<rparr>"

definition demo_project :: ProjectState where
  "demo_project =
     \<lparr>id_ps = ''project_1'', name_ps = ''Merge'', toolId = ''merge-pdf'', toolName_ps = None,
      createdAt = ''2024-01-01T00:00:00.000Z'', updatedAt = ''2024-01-01T00:00:05.000Z'',
      status = completed, options = [], fileMetadata = [], progress = 100\<rparr>"

definition demo_db :: idb where
  "demo_db =
     \<lparr>indexedDB_defined = True, open_fails = False, get_fails = False, put_fails = False,
      projects = [''project_1'' \<mapsto> demo_project]\<rparr>"

definition no_updates :: ProjectUpdates where
  "no_updates =
     \<lparr>u_name = None, u_toolId = None, u_toolName = None, u_updatedAt = None, u_status = None,
      u_options = None, u_fileMetadata = None, u_progress = None\<rparr>"

definition demo_font :: bytes where
  "demo_font = [0, 1, 0, 0]"

definition demo_font_env :: font_env where
  "demo_font_env =
     \<lparr>openFontDB_error = None, get_error = None, put_error = None,
      fetch = (\<lambda>url. Inr \<lparr>ok = True, arrayBuffer = Inr demo_font\<rparr>)\<rparr>"

definition offline_font_env :: font_env where
  "offline_font_env =
     \<lparr>openFontDB_error = None, get_error = None, put_error = None,
      fetch = (\<lambda>url. Inl (Error ''Failed to fetch''))\<rparr>"

definition empty_font_state :: font_state where
  "empty_font_state = \<lparr>fontCache = Map.empty, fontDB = Map.empty\<rparr>"

text \<open>
  The range test of the crop loop, \<open>pageIndex < 0 || pageIndex >= pdf.getPageCount()\<close>,
  as a test on the page number; the number of the page with index \<open>j\<close>; and whether
  a number is the number of a page of the document.
\<close>

definition skipped :: "'r pdf_doc \<Rightarrow> number \<Rightarrow> bool" where
  "skipped pdf pageNum =
     (less_zero (minus_one pageNum) \<or> at_least (minus_one pageNum) (length (pages pdf)))"

definition page_number :: "nat \<Rightarrow> number" where
  "page_number j = Finite (of_nat j + 1)"

definition names_page :: "'r pdf_doc \<Rightarrow> number \<Rightarrow> bool" where
  "names_page pdf pageNum = (pageNum \<in> set (map page_number [0..<length (pages pdf)]))"

text \<open>
  The pages of a document after the crop loop has run to its end over \<open>cd\<close>: the page
  with index \<open>j\<close> is cropped when \<open>cd\<close> has an entry for its number, and is as it was
  otherwise.
\<close>

definition cropped_pages :: "(number \<times> CropData) list \<Rightarrow> pdf_page list \<Rightarrow> pdf_page list" where
  "cropped_pages cd pgs =
     map (\<lambda>j. case map_of cd (page_number j) of
                 None \<Rightarrow> pgs ! j
               | Some c \<Rightarrow> crop_page (pgs ! j) c) [0..<length pgs]"

definition a4_page :: pdf_page where
  "a4_page = \<lparr>page_width = 595, page_height = 842, cropBox = None\<rparr>"

definition demo_doc :: "unit pdf_doc" where
  "demo_doc = \<lparr>pages = [a4_page, a4_page], objects = ()\<rparr>"

definition demo_serialize :: "unit pdf_doc \<Rightarrow> bytes" where
  "demo_serialize d = map (\<lambda>pg. case cropBox pg of None \<Rightarrow> 0 | Some b \<Rightarrow> 1) (pages d)"

definition demo_pdf_env :: "unit pdf_env" where
  "demo_pdf_env =
     \<lparr>cancelled_at = (\<lambda>k. False),
      loadPdfLib = None,
      PDFDocument_load = (\<lambda>buf. Inr demo_doc),
      save = (\<lambda>d. Inr (demo_serialize d)),
      getPage_error = (\<lambda>x. Error ''index is not the index of a page''),
      getFields = (\<lambda>d. Inr 0),
      flatten = (\<lambda>d. Inr d),
      catalog_has = (\<lambda>d n. Inr False),
      catalog_delete = (\<lambda>d n. Inr d),
      catalog_get_Names = (\<lambda>d. Inr False),
      names_has = (\<lambda>d n. Inr False),
      names_delete = (\<lambda>d n. Inr d),
      clear_info = (\<lambda>d. Inr d),
      set_info = (\<lambda>d. Inr d),
      page_has = (\<lambda>d i n. Inr False),
      page_delete = (\<lambda>d i n. Inr d),
      page_get_Annots = (\<lambda>d i. Inr None),
      page_set_Annots = (\<lambda>d i refs. Inr d),
      annot_subtype = (\<lambda>d r. Inr None),
      create = Inr \<lparr>pages = [], objects = ()\<rparr>,
      embedStandardFont = (\<lambda>d n. Inr d),
      import_fontkit = None,
      embedFont = (\<lambda>d b. Inr d),
      createPdfFromText = (\<lambda>d t. Inr (d\<lparr>pages := [a4_page]\<rparr>))\<rparr>"

definition demo_file :: File where
  "demo_file =
     \<lparr>name_file = ''report.pdf'', arrayBuffer_file = Inr [37, 80, 68, 70],
      text_file = Inr ''hello''\<rparr>"

definition half_crop :: CropData where
  "half_crop = \<lparr>crop_x = 0, crop_y = 0, crop_width = 1 / 2, crop_height = 1 / 2\<rparr>"

definition default_sanitize :: SanitizePDFOptions_partial where
  "default_sanitize =
     \<lparr>p_removeJavaScript = None, p_removeAttachments = None, p_removeLinks = None,
      p_flattenForms = None, p_removeMetadata = None, p_removeAnnotations = None\<rparr>"

section \<open>Properties of the recent-files log\<close>

lemma storage_works_add:
  "storage_works st \<Longrightarrow> storage_works (snd (addRecentFile st g n nm sz t tn))"
  by (simp add: storage_works_def addRecentFile_def Let_def isLocalStorageAvailable_def)

lemma getRecentFiles_add:
  "storage_works st \<Longrightarrow>
   getRecentFiles (snd (addRecentFile st g n nm sz t tn)) =
     take MAX_RECENT_FILES
       (\<lparr>id_rf = g, name_rf = nm, size_rf = sz, processedAt = n, toolUsed = t, toolName_rf = tn\<rparr>
        # filter (\<lambda>f. \<not> (name_rf f = nm \<and> toolUsed f = t)) (getRecentFiles st))"
  by (simp add: storage_works_def addRecentFile_def Let_def isLocalStorageAvailable_def
      getRecentFiles_def getRecentFiles_try_def JSON_stringify_def JSON_parse_def)

lemma RecentFile_eta:
  "\<lparr>id_rf = id_rf e, name_rf = name_rf e, size_rf = size_rf e, processedAt = processedAt e,
    toolUsed = toolUsed e, toolName_rf = toolName_rf e\<rparr> = (e::RecentFile)"
  by (cases e) simp

lemma getRecentFiles_add_entry:
  "storage_works st \<Longrightarrow>
   getRecentFiles (snd (addRecentFile st (id_rf e) (processedAt e) (name_rf e) (size_rf e)
               (toolUsed e) (toolName_rf e))) = add_entry (getRecentFiles st) e"
  by (simp add: getRecentFiles_add add_entry_def same_file_def RecentFile_eta)

lemma addRecentFiles_snoc:
  "addRecentFiles st (es @ [e]) =
     snd (addRecentFile (addRecentFiles st es) (id_rf e) (processedAt e) (name_rf e) (size_rf e)
               (toolUsed e) (toolName_rf e))"
  by (induction es arbitrary: st) simp_all

lemma storage_works_addRecentFiles:
  "storage_works st \<Longrightarrow> storage_works (addRecentFiles st es)"
  by (induction es arbitrary: st) (simp_all add: storage_works_add)

lemma add_entry_prefix:
  assumes "\<forall>a \<in> set A. \<not> same_file e a"
  shows "\<exists>rest'. add_entry (take MAX_RECENT_FILES (A @ rest)) e = take MAX_RECENT_FILES ((e # A) @ rest')"
proof -
  have f: "filter (\<lambda>f. \<not> same_file e f) (take n A) = take n A" for n
    using assms by (auto simp: filter_id_conv dest: in_set_takeD)
  have "add_entry (take MAX_RECENT_FILES (A @ rest)) e
      = take MAX_RECENT_FILES (e # take MAX_RECENT_FILES A @ filter (\<lambda>f. \<not> same_file e f) (take (MAX_RECENT_FILES - length A) rest))"
    by (simp add: add_entry_def f)
  also have "\<dots> = take MAX_RECENT_FILES ((e # A) @ filter (\<lambda>f. \<not> same_file e f) (take (MAX_RECENT_FILES - length A) rest))"
    by (cases "length A < MAX_RECENT_FILES") (simp_all add: MAX_RECENT_FILES_def take_Cons')
  finally show ?thesis by blast
qed

lemma addRecentFiles_recent:
  assumes "storage_works st" "distinct (map (\<lambda>e. (name_rf e, toolUsed e)) es)" "es \<noteq> []"
  shows "\<exists>rest. getRecentFiles (addRecentFiles st es) = take MAX_RECENT_FILES (rev es @ rest)"
  using assms(2,3)
proof (induction es rule: rev_induct)
  case Nil
  then show ?case by simp
next
  case (snoc e es)
  have w: "storage_works (addRecentFiles st es)"
    using assms(1) by (rule storage_works_addRecentFiles)
  have step: "getRecentFiles (addRecentFiles st (es @ [e])) = add_entry (getRecentFiles (addRecentFiles st es)) e"
    by (simp add: addRecentFiles_snoc getRecentFiles_add_entry [OF w])
  show ?case
  proof (cases "es = []")
    case True
    then show ?thesis using step by (auto simp: add_entry_def)
  next
    case False
    from snoc.prems have d: "distinct (map (\<lambda>e. (name_rf e, toolUsed e)) es)" by simp
    from snoc.IH [OF d False] obtain rest where
      r: "getRecentFiles (addRecentFiles st es) = take MAX_RECENT_FILES (rev es @ rest)" by blast
    have ne: "\<forall>a \<in> set (rev es). \<not> same_file e a"
      using snoc.prems(1) by (auto simp: same_file_def image_iff)
    from add_entry_prefix [OF ne, of rest] obtain rest' where
      "add_entry (take MAX_RECENT_FILES (rev es @ rest)) e = take MAX_RECENT_FILES ((e # rev es) @ rest')"
      by blast
    then show ?thesis using step r by auto
  qed
qed

text \<open>
  C10: \<open>getRecentFiles\<close> returns a list in every state of the backing store: the empty
  list when the storage is unavailable, when reading it throws, when the key is
  absent, when the stored string is not valid JSON and when it parses to something
  that is not an array; otherwise the parsed array. No exception leaves the function:
  the only throwing calls are inside its \<open>try\<close>.
\<close>

theorem getRecentFiles_total:
  "(\<not> isLocalStorageAvailable st \<longrightarrow> getRecentFiles st = [])
   \<and> (getItem_throws st \<longrightarrow> getRecentFiles st = [])
   \<and> (stored st = None \<longrightarrow> getRecentFiles st = [])
   \<and> (stored st = Some (NotJSON s) \<longrightarrow> getRecentFiles st = [])
   \<and> (stored st = Some (JSONText JOther) \<longrightarrow> getRecentFiles st = [])
   \<and> (isLocalStorageAvailable st \<and> \<not> getItem_throws st \<and> stored st = Some (JSONText (JArray fs))
        \<longrightarrow> getRecentFiles st = fs)"
  by (simp add: getRecentFiles_def getRecentFiles_try_def JSON_parse_def)

theorem getRecentFiles_total_witness:
  "getRecentFiles (working_storage\<lparr>window_defined := False\<rparr>) = []
   \<and> getRecentFiles (working_storage\<lparr>getItem_throws := True\<rparr>) = []
   \<and> getRecentFiles working_storage = []
   \<and> getRecentFiles (working_storage\<lparr>stored := Some (NotJSON ''[{'')\<rparr>) = []
   \<and> getRecentFiles (working_storage\<lparr>stored := Some (JSONText JOther)\<rparr>) = []
   \<and> getRecentFiles (working_storage\<lparr>stored := Some (JSONText (JArray [entry ''a'' ''merge-pdf'']))\<rparr>)
       = [entry ''a'' ''merge-pdf'']"
  using getRecentFiles_total [of "working_storage\<lparr>window_defined := False\<rparr>" "''[{''" "[]"]
    getRecentFiles_total [of "working_storage\<lparr>getItem_throws := True\<rparr>" "''[{''" "[]"]
    getRecentFiles_total [of working_storage "''[{''" "[]"]
    getRecentFiles_total [of "working_storage\<lparr>stored := Some (NotJSON ''[{'')\<rparr>" "''[{''" "[]"]
    getRecentFiles_total [of "working_storage\<lparr>stored := Some (JSONText JOther)\<rparr>" "''[{''" "[]"]
    getRecentFiles_total [of "working_storage\<lparr>stored := Some (JSONText (JArray [entry ''a'' ''merge-pdf'']))\<rparr>"
      "''[{''" "[entry ''a'' ''merge-pdf'']"]
  by (simp add: working_storage_def isLocalStorageAvailable_def)

text \<open>
  C6: with a working storage, after 11 \<open>addRecentFile\<close> calls with pairwise distinct
  \<open>(name, toolUsed)\<close> the stored list is exactly the 10 most recent entries, most
  recent first, whatever was stored before; and a call whose \<open>(name, toolUsed)\<close>
  already occurs in the stored list puts the new entry at the front, leaves no other
  entry with that pair, and does not make the list longer.
\<close>

theorem addRecentFile_cap_and_dedup:
  assumes "storage_works st"
  shows "(length es = 11 \<and> distinct (map (\<lambda>e. (name_rf e, toolUsed e)) es)
            \<longrightarrow> getRecentFiles (addRecentFiles st es) = take 10 (rev es)
                \<and> length (getRecentFiles (addRecentFiles st es)) = 10)
       \<and> ((\<exists>f \<in> set (getRecentFiles st). name_rf f = nm \<and> toolUsed f = t)
            \<longrightarrow> getRecentFiles (snd (addRecentFile st g n nm sz t tn))
                  = take 10 (fst (addRecentFile st g n nm sz t tn)
                             # filter (\<lambda>f. \<not> (name_rf f = nm \<and> toolUsed f = t)) (getRecentFiles st))
                \<and> hd (getRecentFiles (snd (addRecentFile st g n nm sz t tn)))
                    = fst (addRecentFile st g n nm sz t tn)
                \<and> (\<forall>f \<in> set (tl (getRecentFiles (snd (addRecentFile st g n nm sz t tn)))).
                      \<not> (name_rf f = nm \<and> toolUsed f = t))
                \<and> length (getRecentFiles (snd (addRecentFile st g n nm sz t tn)))
                    \<le> length (getRecentFiles st))"
proof (intro conjI impI)
  assume a: "length es = 11 \<and> distinct (map (\<lambda>e. (name_rf e, toolUsed e)) es)"
  then have "es \<noteq> []" by auto
  with addRecentFiles_recent [OF assms] a obtain rest where
    "getRecentFiles (addRecentFiles st es) = take MAX_RECENT_FILES (rev es @ rest)" by blast
  with a show "getRecentFiles (addRecentFiles st es) = take 10 (rev es)"
    by (simp add: MAX_RECENT_FILES_def)
  with a show "length (getRecentFiles (addRecentFiles st es)) = 10" by simp
next
  let ?new = "fst (addRecentFile st g n nm sz t tn)"
  let ?P = "\<lambda>f. \<not> (name_rf f = nm \<and> toolUsed f = t)"
  let ?after = "getRecentFiles (snd (addRecentFile st g n nm sz t tn))"
  assume dup: "\<exists>f \<in> set (getRecentFiles st). name_rf f = nm \<and> toolUsed f = t"
  have new: "?new = \<lparr>id_rf = g, name_rf = nm, size_rf = sz, processedAt = n, toolUsed = t, toolName_rf = tn\<rparr>"
    by (simp add: addRecentFile_def Let_def)
  show eq: "?after = take 10 (?new # filter ?P (getRecentFiles st))"
    using getRecentFiles_add [OF assms, of g n nm sz t tn] by (simp add: new MAX_RECENT_FILES_def)
  show "hd ?after = ?new" by (simp add: eq)
  show "\<forall>f \<in> set (tl ?after). ?P f"
    by (auto simp: eq dest!: in_set_takeD)
  have "length (filter ?P (getRecentFiles st)) < length (getRecentFiles st)"
    using dup by (intro length_filter_less [where x = "SOME f. f \<in> set (getRecentFiles st) \<and> \<not> ?P f"])
      (metis (mono_tags, lifting) someI_ex)+
  then show "length ?after \<le> length (getRecentFiles st)"
    by (simp add: eq)
qed

theorem addRecentFile_cap_and_dedup_witness:
  "storage_works working_storage
   \<and> length eleven_entries = 11
   \<and> distinct (map (\<lambda>e. (name_rf e, toolUsed e)) eleven_entries)
   \<and> getRecentFiles (addRecentFiles working_storage eleven_entries) = take 10 (rev eleven_entries)
   \<and> length (getRecentFiles (addRecentFiles working_storage eleven_entries)) = 10
   \<and> getRecentFiles two_entries_storage = [entry ''a'' ''x'', entry ''b'' ''x'']
   \<and> getRecentFiles (snd (addRecentFile two_entries_storage
        ''1700000000001-a'' ''2024-01-02T00:00:00.000Z'' ''a.pdf'' 2048 ''x'' None))
      = [\<lparr>id_rf = ''1700000000001-a'', name_rf = ''a.pdf'', size_rf = 2048,
          processedAt = ''2024-01-02T00:00:00.000Z'', toolUsed = ''x'', toolName_rf = None\<rparr>,
         entry ''b'' ''x'']"
proof -
  have w: "storage_works working_storage"
    by (simp add: storage_works_def working_storage_def)
  have w2: "storage_works two_entries_storage"
    by (simp add: storage_works_def working_storage_def two_entries_storage_def)
  have l: "length eleven_entries = 11 \<and> distinct (map (\<lambda>e. (name_rf e, toolUsed e)) eleven_entries)"
    by (simp add: eleven_entries_def entry_def)
  have g: "getRecentFiles two_entries_storage = [entry ''a'' ''x'', entry ''b'' ''x'']"
    by (simp add: two_entries_storage_def working_storage_def getRecentFiles_def
        getRecentFiles_try_def JSON_parse_def isLocalStorageAvailable_def)
  have d: "\<exists>f \<in> set (getRecentFiles two_entries_storage). name_rf f = ''a.pdf'' \<and> toolUsed f = ''x''"
    by (simp add: g entry_def)
  have n: "fst (addRecentFile two_entries_storage
        ''1700000000001-a'' ''2024-01-02T00:00:00.000Z'' ''a.pdf'' 2048 ''x'' None)
      = \<lparr>id_rf = ''1700000000001-a'', name_rf = ''a.pdf'', size_rf = 2048,
          processedAt = ''2024-01-02T00:00:00.000Z'', toolUsed = ''x'', toolName_rf = None\<rparr>"
    by (simp add: addRecentFile_def Let_def)
  from addRecentFile_cap_and_dedup [OF w, of eleven_entries] l
  have a: "getRecentFiles (addRecentFiles working_storage eleven_entries) = take 10 (rev eleven_entries)
      \<and> length (getRecentFiles (addRecentFiles working_storage eleven_entries)) = 10"
    by blast
  from addRecentFile_cap_and_dedup [OF w2, of eleven_entries "''a.pdf''" "''x''"
      "''1700000000001-a''" "''2024-01-02T00:00:00.000Z''" 2048 None] d
  have "getRecentFiles (snd (addRecentFile two_entries_storage
        ''1700000000001-a'' ''2024-01-02T00:00:00.000Z'' ''a.pdf'' 2048 ''x'' None))
      = take 10 (fst (addRecentFile two_entries_storage
        ''1700000000001-a'' ''2024-01-02T00:00:00.000Z'' ''a.pdf'' 2048 ''x'' None)
         # filter (\<lambda>f. \<not> (name_rf f = ''a.pdf'' \<and> toolUsed f = ''x'')) (getRecentFiles two_entries_storage))"
    by blast
  then have b: "getRecentFiles (snd (addRecentFile two_entries_storage
        ''1700000000001-a'' ''2024-01-02T00:00:00.000Z'' ''a.pdf'' 2048 ''x'' None))
      = [\<lparr>id_rf = ''1700000000001-a'', name_rf = ''a.pdf'', size_rf = 2048,
          processedAt = ''2024-01-02T00:00:00.000Z'', toolUsed = ''x'', toolName_rf = None\<rparr>,
         entry ''b'' ''x'']"
    by (simp add: n g entry_def)
  from w l a g b show ?thesis by blast
qed

section \<open>Properties of the project store\<close>

text \<open>
  C2 (as the code has it): \<open>updateProject\<close> has no guard on status transitions. When
  the database operations succeed, the stored and the returned status of an existing
  project are the status of the update if it carries one, and the old status
  otherwise, whatever the old status was.
\<close>

theorem updateProject_status:
  assumes "openDatabase db = Inr ()" "\<not> get_fails db" "\<not> put_fails db"
    and "projects db pid = Some p" "id_ps p = pid"
  shows "map_option status (projects (snd (updateProject db now pid u)) pid)
           = Some (or_default (u_status u) (status p))
       \<and> (\<exists>r. fst (updateProject db now pid u) = Inr (Some r)
              \<and> status r = or_default (u_status u) (status p))"
  using assms
  by (simp add: updateProject_def Let_def spread_updates_def or_default_def split: option.splits)

theorem updateProject_status_witness:
  "map_option status
     (projects (snd (updateProject demo_db ''2024-01-02T00:00:00.000Z'' ''project_1''
                       (no_updates\<lparr>u_status := Some paused\<rparr>))) ''project_1'') = Some paused"
  using updateProject_status [of demo_db "''project_1''" demo_project
      "''2024-01-02T00:00:00.000Z''" "no_updates\<lparr>u_status := Some paused\<rparr>"]
  by (simp add: demo_db_def demo_project_def no_updates_def openDatabase_def or_default_def)

text \<open>
  A completed project is set back to \<open>in_progress\<close> by an update that says so.
\<close>

theorem updateProject_reopens_completed:
  "map_option status (projects demo_db ''project_1'') = Some completed
   \<and> map_option status
     (projects (snd (updateProject demo_db ''2024-01-02T00:00:00.000Z'' ''project_1''
                       (no_updates\<lparr>u_status := Some in_progress\<rparr>))) ''project_1'') = Some in_progress
   \<and> map_option status
     (projects (snd (updateProject demo_db ''2024-01-02T00:00:00.000Z'' ''project_1''
                       (no_updates\<lparr>u_status := Some in_progress\<rparr>))) ''project_1'') \<noteq> Some completed"
  by (simp add: updateProject_def Let_def spread_updates_def demo_db_def demo_project_def
      no_updates_def openDatabase_def)

text \<open>
  C5 (as the code has it): when the database cannot be opened \<open>updateProject\<close>
  rejects; on an id that is not in the store it resolves with \<open>null\<close> and writes
  nothing; on an existing project it stores and returns a record with the same \<open>id\<close>
  and \<open>createdAt\<close>, in which every field of the update other than \<open>updatedAt\<close> is
  reflected and every absent field is kept, and whose \<open>updatedAt\<close> is the clock
  reading of the call, so that it is greater than the old one when the clock is.
\<close>

theorem updateProject_result:
  "(openDatabase db = Inl e \<longrightarrow> updateProject db now pid u = (Inl e, db))
   \<and> (openDatabase db = Inr () \<and> \<not> get_fails db \<and> projects db pid = None
        \<longrightarrow> updateProject db now pid u = (Inr None, db))
   \<and> (openDatabase db = Inr () \<and> \<not> get_fails db \<and> \<not> put_fails db \<and> projects db pid = Some p
        \<longrightarrow> (\<exists>r. fst (updateProject db now pid u) = Inr (Some r)
              \<and> projects (snd (updateProject db now pid u)) (id_ps p) = Some r
              \<and> id_ps r = id_ps p \<and> createdAt r = createdAt p
              \<and> name_ps r = or_default (u_name u) (name_ps p)
              \<and> toolId r = or_default (u_toolId u) (toolId p)
              \<and> toolName_ps r = (case u_toolName u of None \<Rightarrow> toolName_ps p | Some v \<Rightarrow> Some v)
              \<and> status r = or_default (u_status u) (status p)
              \<and> options r = or_default (u_options u) (options p)
              \<and> fileMetadata r = or_default (u_fileMetadata u) (fileMetadata p)
              \<and> progress r = or_default (u_progress u) (progress p)
              \<and> updatedAt r = now
              \<and> (updatedAt p < now \<longrightarrow> updatedAt p < updatedAt r)))"
  by (simp add: updateProject_def Let_def spread_updates_def or_default_def split: option.splits)

theorem updateProject_result_witness:
  "updateProject (demo_db\<lparr>indexedDB_defined := False\<rparr>) ''2024-01-02T00:00:00.000Z'' ''project_1'' no_updates
     = (Inl (Error ''IndexedDB not available''), demo_db\<lparr>indexedDB_defined := False\<rparr>)
   \<and> updateProject demo_db ''2024-01-02T00:00:00.000Z'' ''project_9'' no_updates = (Inr None, demo_db)
   \<and> (\<exists>r. fst (updateProject demo_db ''2024-01-02T00:00:00.000Z'' ''project_1''
                 (no_updates\<lparr>u_progress := Some 40, u_name := Some ''Merge 2''\<rparr>)) = Inr (Some r)
          \<and> progress r = 40 \<and> name_ps r = ''Merge 2'' \<and> status r = completed
          \<and> updatedAt r = ''2024-01-02T00:00:00.000Z''
          \<and> updatedAt demo_project < updatedAt r)"
  using updateProject_result [of "demo_db\<lparr>indexedDB_defined := False\<rparr>" "Error ''IndexedDB not available''"
      "''2024-01-02T00:00:00.000Z''" "''project_1''" no_updates demo_project]
    updateProject_result [of demo_db "Error ''IndexedDB not available''"
      "''2024-01-02T00:00:00.000Z''" "''project_9''" no_updates demo_project]
    updateProject_result [of demo_db "Error ''IndexedDB not available''"
      "''2024-01-02T00:00:00.000Z''" "''project_1''"
      "no_updates\<lparr>u_progress := Some 40, u_name := Some ''Merge 2''\<rparr>" demo_project]
  by (auto simp add: demo_db_def demo_project_def no_updates_def openDatabase_def or_default_def)

text \<open>
  An update in the same millisecond as the last one, which carries an \<open>updatedAt\<close> of
  its own: the returned \<open>updatedAt\<close> is not greater than the old one, and the update's
  \<open>updatedAt\<close> is not reflected.
\<close>

theorem updateProject_updatedAt_counterexample:
  "fst (updateProject demo_db ''2024-01-01T00:00:05.000Z'' ''project_1''
          (no_updates\<lparr>u_updatedAt := Some ''2030-01-01T00:00:00.000Z''\<rparr>))
     = Inr (Some (demo_project\<lparr>updatedAt := ''2024-01-01T00:00:05.000Z''\<rparr>))
   \<and> \<not> (updatedAt demo_project < updatedAt (demo_project\<lparr>updatedAt := ''2024-01-01T00:00:05.000Z''\<rparr>))
   \<and> updatedAt (demo_project\<lparr>updatedAt := ''2024-01-01T00:00:05.000Z''\<rparr>) \<noteq> ''2030-01-01T00:00:00.000Z''"
  by (simp add: updateProject_def Let_def spread_updates_def demo_db_def demo_project_def
      no_updates_def openDatabase_def)

section \<open>Properties of the font cache\<close>

text \<open>
  C3: with a durable tier that opens and whose requests succeed, \<open>loadFont\<close> on a
  miss in both tiers returns the fetched bytes \<open>b\<close> and puts them under the key in
  both tiers; a later lookup returns \<open>b\<close> from the memory tier, and after the memory
  tier is emptied \<open>getCachedFontFromDB\<close> still answers with \<open>b\<close>, \<open>loadFont\<close> returns
  \<open>b\<close> without any fetch and the memory tier holds \<open>b\<close> again.
\<close>

theorem font_cache_roundtrip:
  assumes miss: "fontCache st k = None" "fontDB st k = None"
    and db: "openFontDB_error env = None" "get_error env = None" "put_error env = None"
    and fetched: "fetch env url = Inr resp" "ok resp" "arrayBuffer resp = Inr b"
    and db': "openFontDB_error env' = None" "get_error env' = None"
  shows "fst (loadFont env st k url) = Inr b
       \<and> fontCache (snd (loadFont env st k url)) k = Some b
       \<and> fontDB (snd (loadFont env st k url)) k = Some b
       \<and> fst (loadFont env'' (snd (loadFont env st k url)) k url') = Inr b
       \<and> getCachedFontFromDB env' (evict_memory (snd (loadFont env st k url))) k = Inr (Some b)
       \<and> fst (loadFont env' (evict_memory (snd (loadFont env st k url))) k url') = Inr b
       \<and> fontCache (snd (loadFont env' (evict_memory (snd (loadFont env st k url))) k url')) k
           = Some b"
  using assms
  by (simp add: loadFont_def getCachedFontFromDB_def saveFontToDB_def openFontDB_def
      evict_memory_def Let_def)

theorem font_cache_roundtrip_witness:
  "fst (loadFont demo_font_env empty_font_state ''noto-sans'' ''https://fonts/NotoSans.ttf'')
     = Inr demo_font
   \<and> fst (loadFont offline_font_env
            (evict_memory (snd (loadFont demo_font_env empty_font_state ''noto-sans''
                                   ''https://fonts/NotoSans.ttf'')))
            ''noto-sans'' ''https://fonts/NotoSans.ttf'') = Inr demo_font"
  using font_cache_roundtrip [of empty_font_state "''noto-sans''" demo_font_env
      "''https://fonts/NotoSans.ttf''" "\<lparr>ok = True, arrayBuffer = Inr demo_font\<rparr>" demo_font
      offline_font_env offline_font_env "''https://fonts/NotoSans.ttf''"]
  by (simp add: demo_font_env_def offline_font_env_def empty_font_state_def)

text \<open>
  C4: a \<open>put\<close> request that fails. \<open>saveFontToDB\<close> rejects with the request's error,
  and so does \<open>loadFont\<close>, although the memory tier already holds the fetched bytes.
\<close>

theorem loadFont_put_failure_surfaces:
  "saveFontToDB (demo_font_env\<lparr>put_error := Some (Error ''QuotaExceededError'')\<rparr>)
      (empty_font_state\<lparr>fontCache := [''noto-sans'' \<mapsto> demo_font]\<rparr>) ''noto-sans'' demo_font
     = (Inl (Error ''QuotaExceededError''),
        empty_font_state\<lparr>fontCache := [''noto-sans'' \<mapsto> demo_font]\<rparr>)
   \<and> loadFont (demo_font_env\<lparr>put_error := Some (Error ''QuotaExceededError'')\<rparr>)
        empty_font_state ''noto-sans'' ''https://fonts/NotoSans.ttf''
     = (Inl (Error ''QuotaExceededError''),
        empty_font_state\<lparr>fontCache := [''noto-sans'' \<mapsto> demo_font]\<rparr>)"
  by (simp add: loadFont_def getCachedFontFromDB_def saveFontToDB_def openFontDB_def
      demo_font_env_def empty_font_state_def Let_def)

section \<open>Properties of the processors\<close>

subsection \<open>Progress reports\<close>

lemma percentages_updateProgress [simp]:
  "percentages (updateProgress p m plog) = percentages plog @ [p]"
  by (simp add: percentages_def updateProgress_def)

lemma percentages_Nil [simp]: "percentages [] = []"
  by (simp add: percentages_def)

lemma crop_loop_cancelled:
  "cancelled_at env i \<Longrightarrow>
   crop_loop env cd tot (pageNum # rest) i pdf plog = (Inl (Error ''Processing cancelled''), plog)"
  by simp

lemma crop_loop_skip:
  "\<not> cancelled_at env i \<Longrightarrow> skipped pdf pageNum \<Longrightarrow>
   crop_loop env cd tot (pageNum # rest) i pdf plog = crop_loop env cd tot rest (Suc i) pdf plog"
  by (simp add: skipped_def Let_def)

lemma crop_loop_no_page:
  "\<not> cancelled_at env i \<Longrightarrow> \<not> skipped pdf pageNum \<Longrightarrow>
   array_index (minus_one pageNum) = None \<Longrightarrow>
   crop_loop env cd tot (pageNum # rest) i pdf plog
     = (Inl (getPage_error env (minus_one pageNum)), plog)"
  by (simp add: skipped_def Let_def)

lemma crop_loop_undefined:
  "\<not> cancelled_at env i \<Longrightarrow> \<not> skipped pdf pageNum \<Longrightarrow>
   array_index (minus_one pageNum) = Some j \<Longrightarrow> map_of cd pageNum = None \<Longrightarrow>
   crop_loop env cd tot (pageNum # rest) i pdf plog = (Inl (Error ''TypeError''), plog)"
  by (simp add: skipped_def Let_def)

lemma crop_loop_crop:
  "\<not> cancelled_at env i \<Longrightarrow> \<not> skipped pdf pageNum \<Longrightarrow>
   array_index (minus_one pageNum) = Some j \<Longrightarrow> map_of cd pageNum = Some c \<Longrightarrow>
   crop_loop env cd tot (pageNum # rest) i pdf plog =
     crop_loop env cd tot rest (Suc i)
       (pdf\<lparr>pages := (pages pdf)[j := crop_page (pages pdf ! j) c]\<rparr>)
       (updateProgress (30 + (60 * of_nat (i + 1) / of_nat tot))
          (''Cropping page '' @ string_of_number pageNum @ ''...'') plog)"
  by (simp add: skipped_def Let_def)

lemma crop_loop_log:
  "\<exists>ext. percentages (snd (crop_loop env cd tot pns i pdf plog)) = percentages plog @ ext
     \<and> sorted ext
     \<and> (\<forall>p \<in> set ext. 30 + 60 * of_nat (i + 1) / of_nat tot \<le> p
                       \<and> p \<le> 30 + 60 * of_nat (i + length pns) / of_nat tot)"
proof (induction pns arbitrary: i pdf plog)
  case Nil
  then show ?case by simp
next
  case (Cons pageNum rest)
  let ?v = "30 + 60 * of_nat (i + 1) / of_nat tot :: rat"
  let ?top = "30 + 60 * of_nat (i + length (pageNum # rest)) / of_nat tot :: rat"
  have mono: "?v \<le> 30 + 60 * of_nat (Suc i + 1) / of_nat tot"
    by (simp add: divide_right_mono)
  have top: "?v \<le> ?top"
    by (simp add: divide_right_mono)
  have topeq: "30 + 60 * of_nat (Suc i + length rest) / of_nat tot = ?top"
    by simp
  note crop_loop.simps [simp del]
  consider (cancel) "cancelled_at env i"
    | (skip) "\<not> cancelled_at env i" "skipped pdf pageNum"
    | (no_page) "\<not> cancelled_at env i" "\<not> skipped pdf pageNum"
        "array_index (minus_one pageNum) = None"
    | (undef) j where "\<not> cancelled_at env i" "\<not> skipped pdf pageNum"
        "array_index (minus_one pageNum) = Some j" "map_of cd pageNum = None"
    | (crop) j c where "\<not> cancelled_at env i" "\<not> skipped pdf pageNum"
        "array_index (minus_one pageNum) = Some j" "map_of cd pageNum = Some c"
    by (cases "array_index (minus_one pageNum)"; cases "map_of cd pageNum") auto
  then show ?case
  proof cases
    case cancel
    then show ?thesis by (simp add: crop_loop_cancelled)
  next
    case skip
    from Cons.IH [of "Suc i" pdf plog] obtain ext where
      e: "percentages (snd (crop_loop env cd tot rest (Suc i) pdf plog)) = percentages plog @ ext"
        "sorted ext"
        "\<forall>p \<in> set ext. 30 + 60 * of_nat (Suc i + 1) / of_nat tot \<le> p
                     \<and> p \<le> 30 + 60 * of_nat (Suc i + length rest) / of_nat tot"
      by blast
    have "\<forall>p \<in> set ext. ?v \<le> p \<and> p \<le> ?top"
    proof
      fix p assume "p \<in> set ext"
      with e(3) have "30 + 60 * of_nat (Suc i + 1) / of_nat tot \<le> p"
        "p \<le> 30 + 60 * of_nat (Suc i + length rest) / of_nat tot" by auto
      with mono topeq show "?v \<le> p \<and> p \<le> ?top" by linarith
    qed
    with e(1,2) show ?thesis
      unfolding crop_loop_skip [OF skip] by blast
  next
    case no_page
    then show ?thesis by (simp add: crop_loop_no_page)
  next
    case undef
    then show ?thesis by (simp add: crop_loop_undefined)
  next
    case crop
    let ?pdf' = "pdf\<lparr>pages := (pages pdf)[j := crop_page (pages pdf ! j) c]\<rparr>"
    let ?plog' = "updateProgress ?v (''Cropping page '' @ string_of_number pageNum @ ''...'') plog"
    from Cons.IH [of "Suc i" ?pdf' ?plog'] obtain ext where
      e: "percentages (snd (crop_loop env cd tot rest (Suc i) ?pdf' ?plog')) = percentages ?plog' @ ext"
        "sorted ext"
        "\<forall>p \<in> set ext. 30 + 60 * of_nat (Suc i + 1) / of_nat tot \<le> p
                   \<and> p \<le> 30 + 60 * of_nat (Suc i + length rest) / of_nat tot"
      by blast
    have b0: "\<forall>p \<in> set ext. ?v \<le> p \<and> p \<le> ?top"
    proof
      fix p assume "p \<in> set ext"
      with e(3) have "30 + 60 * of_nat (Suc i + 1) / of_nat tot \<le> p"
        "p \<le> 30 + 60 * of_nat (Suc i + length rest) / of_nat tot" by auto
      with mono topeq show "?v \<le> p \<and> p \<le> ?top" by linarith
    qed
    then have s: "sorted (?v # ext)"
      using e(2) by simp
    have b: "\<forall>p \<in> set (?v # ext). ?v \<le> p \<and> p \<le> ?top"
      using b0 top by simp
    have "percentages (snd (crop_loop env cd tot (pageNum # rest) i pdf plog)) = percentages plog @ (?v # ext)"
      unfolding crop_loop_crop [OF crop] using e(1) by simp
    with s b show ?thesis by blast
  qed
qed

lemma performMetadataCrop_log:
  assumes "cd \<noteq> []"
  shows "\<exists>ext. percentages (snd (performMetadataCrop env buf cd plog)) = percentages plog @ ext
     \<and> sorted ext \<and> (\<forall>p \<in> set ext. 30 \<le> p \<and> p \<le> 90)"
proof (cases "PDFDocument_load env buf")
  case (Inl e)
  then show ?thesis by (simp add: performMetadataCrop_def)
next
  case (Inr pdf)
  from crop_loop_log [of env cd "length cd" "map fst cd" 0 pdf plog] obtain ext where
    e: "percentages (snd (crop_loop env cd (length cd) (map fst cd) 0 pdf plog)) = percentages plog @ ext"
      "sorted ext"
      "\<forall>p \<in> set ext. 30 + 60 * of_nat (0 + 1) / of_nat (length cd) \<le> p
                       \<and> p \<le> 30 + 60 * of_nat (0 + length (map fst cd)) / (of_nat (length cd) :: rat)"
    by blast
  have pos: "(0::rat) < of_nat (length cd)" using assms by simp
  have "\<forall>p \<in> set ext. 30 \<le> p \<and> p \<le> 90"
  proof
    fix p assume "p \<in> set ext"
    with e(3) have 1: "30 + 60 * of_nat (0 + 1) / of_nat (length cd) \<le> p"
      and 2: "p \<le> 30 + 60 * of_nat (0 + length (map fst cd)) / (of_nat (length cd) :: rat)" by auto
    have "(0::rat) \<le> 60 * of_nat (0 + 1) / of_nat (length cd)" by simp
    with 1 have "30 \<le> p" by linarith
    moreover have "60 * of_nat (0 + length (map fst cd)) / (of_nat (length cd) :: rat) = 60"
      using pos by simp
    with 2 have "p \<le> 90" by linarith
    ultimately show "30 \<le> p \<and> p \<le> 90" ..
  qed
  with e(1,2) Inr show ?thesis
    by (auto simp: performMetadataCrop_def Let_def split: prod.splits sum.splits)
qed

lemma crop_process_log:
  "sorted (percentages (snd (crop_process env files opts)))
   \<and> (\<forall>p \<in> set (percentages (snd (crop_process env files opts))). 0 \<le> p \<and> p \<le> 100)"
proof (cases "length files \<noteq> 1 \<or> cropData opts = None \<or> cropData opts = Some []")
  case True
  then show ?thesis by (auto simp: crop_process_def)
next
  case False
  then obtain cd where cd: "cropData opts = Some cd" "cd \<noteq> []" "length files = 1" by auto
  have t: "sorted (percentages (snd (crop_try env f opts cd)))
     \<and> (\<forall>p \<in> set (percentages (snd (crop_try env f opts cd))). 0 \<le> p \<and> p \<le> 100)" for f
  proof (cases "loadPdfLib env")
    case (Some e)
    then show ?thesis by (simp add: crop_try_def)
  next
    case None
    show ?thesis
    proof (cases "arrayBuffer_file f")
      case (Inl e)
      with None show ?thesis by (simp add: crop_try_def)
    next
      case (Inr buf)
      let ?plog2 = "updateProgress 20 ''Loading PDF...'' (updateProgress 10 ''Loading PDF library...'' [])"
      from performMetadataCrop_log [OF cd(2), of env buf ?plog2] obtain ext where
        e: "percentages (snd (performMetadataCrop env buf cd ?plog2)) = percentages ?plog2 @ ext"
        "sorted ext" "\<forall>p \<in> set ext. 30 \<le> p \<and> p \<le> 90" by blast
      have s1: "sorted ([10, 20] @ ext)" using e(2,3) by (fastforce simp: sorted_append)
      have s2: "sorted ([10, 20] @ ext @ [100])" using e(2,3) by (fastforce simp: sorted_append)
      have b: "\<forall>p \<in> set ext. 0 \<le> p \<and> p \<le> 100" using e(3) by fastforce
      obtain r plog3 where r: "performMetadataCrop env buf cd ?plog2 = (r, plog3)"
        by (cases "performMetadataCrop env buf cd ?plog2")
      with e(1) have p3: "percentages plog3 = [10, 20] @ ext" by simp
      show ?thesis
        using None Inr r p3 s1 s2 b
        by (cases r) (auto simp: crop_try_def Let_def performDestructiveCrop_def)
    qed
  qed
  obtain r plog where "crop_try env (files ! 0) opts cd = (r, plog)"
    by (cases "crop_try env (files ! 0) opts cd")
  with t [of "files ! 0"] cd show ?thesis
    by (cases r) (auto simp: crop_process_def)
qed


lemma sanitize_save_log:
  "percentages (snd (sanitize_save env f osz ds pc plog))
     \<in> {percentages plog, percentages plog @ [90], percentages plog @ [90, 100]}"
  by (simp add: sanitize_save_def Let_def split: sum.splits)

lemma sanitize_steps_log:
  "percentages (snd (sanitize_steps env f so osz pdfDoc plog))
     \<in> {percentages plog, percentages plog @ [30],
        percentages plog @ [30, 40, 50, 60, 70, 80],
        percentages plog @ [30, 40, 50, 60, 70, 80, 90],
        percentages plog @ [30, 40, 50, 60, 70, 80, 90, 100]}"
proof (cases "cancelled_at env 1 \<or> length (pages pdfDoc) = 0")
  case True
  then show ?thesis by (auto simp: sanitize_steps_def Let_def)
next
  case False
  obtain ds plog8 where
    eq: "sanitize_steps env f so osz pdfDoc plog
           = sanitize_save env f osz ds (length (pages pdfDoc)) plog8"
    and p8: "percentages plog8 = percentages plog @ [30, 40, 50, 60, 70, 80]"
    using False by (simp add: sanitize_steps_def Let_def)
  from sanitize_save_log [of env f osz ds "length (pages pdfDoc)" plog8]
  show ?thesis unfolding eq p8 by auto
qed

lemma sanitize_try_log:
  "percentages (snd (sanitize_try env f so))
     \<in> {[5], [5, 10], [5, 10, 20], [5, 10, 20, 30],
        [5, 10, 20, 30, 40, 50, 60, 70, 80],
        [5, 10, 20, 30, 40, 50, 60, 70, 80, 90],
        [5, 10, 20, 30, 40, 50, 60, 70, 80, 90, 100]}"
proof (cases "loadPdfLib env = None \<and> \<not> cancelled_at env 0
              \<and> (\<exists>buf pdfDoc. arrayBuffer_file f = Inr buf \<and> PDFDocument_load env buf = Inr pdfDoc)")
  case False
  then show ?thesis
    by (auto simp: sanitize_try_def Let_def split: option.splits sum.splits exn.splits)
next
  case True
  then obtain buf pdfDoc where
    l: "loadPdfLib env = None" "\<not> cancelled_at env 0" "arrayBuffer_file f = Inr buf"
       "PDFDocument_load env buf = Inr pdfDoc" by blast
  define plog2 where
    "plog2 = updateProgress 20 ''Loading PDF document...''
               (updateProgress 10 ''Reading PDF file...''
                  (updateProgress 5 ''Loading PDF library...'' []))"
  have eq: "sanitize_try env f so = sanitize_steps env f so (length buf) pdfDoc plog2"
    using l by (simp add: sanitize_try_def Let_def plog2_def)
  have p2: "percentages plog2 = [5, 10, 20]" by (simp add: plog2_def)
  from sanitize_steps_log [of env f so "length buf" pdfDoc plog2]
  show ?thesis unfolding eq p2 by auto
qed

lemma sanitize_process_log:
  "sorted (percentages (snd (sanitize_process env files opts)))
   \<and> (\<forall>p \<in> set (percentages (snd (sanitize_process env files opts))). 0 \<le> p \<and> p \<le> 100)"
proof (cases "length files \<noteq> 1")
  case True
  then show ?thesis by (simp add: sanitize_process_def)
next
  case False
  let ?t = "sanitize_try env (files ! 0) (merge_sanitize_options opts)"
  have "snd (sanitize_process env files opts) = snd ?t"
    using False by (simp add: sanitize_process_def Let_def split: prod.splits sum.splits)
  moreover have "sorted (percentages (snd ?t)) \<and> (\<forall>p \<in> set (percentages (snd ?t)). 0 \<le> p \<and> p \<le> 100)"
    using sanitize_try_log [of env "files ! 0" "merge_sanitize_options opts"] by auto
  ultimately show ?thesis by simp
qed


lemma text_finish_log:
  "percentages (snd (text_finish env files direct d ctext plog))
     \<in> {percentages plog @ [50], percentages plog @ [50, 90], percentages plog @ [50, 90, 100]}"
  by (simp add: text_finish_def Let_def split: sum.splits)

lemma text_font_log:
  "percentages (fst (snd (text_font env fenv fstate fc pdfDoc plog)))
     \<in> {percentages plog, percentages plog @ [30], percentages plog @ [30, 40]}"
  by (simp add: text_font_def Let_def split: font_source.splits option.splits prod.splits sum.splits)

lemma text_try_log:
  "percentages (fst (snd (text_try env fenv fstate files opts)))
     \<in> {[5], [5, 10], [5, 10, 20], [5, 10, 20, 30], [5, 10, 20, 30, 40],
        [5, 10, 20, 50], [5, 10, 20, 50, 90], [5, 10, 20, 50, 90, 100],
        [5, 10, 20, 30, 50], [5, 10, 20, 30, 50, 90], [5, 10, 20, 30, 50, 90, 100],
        [5, 10, 20, 30, 40, 50], [5, 10, 20, 30, 40, 50, 90], [5, 10, 20, 30, 40, 50, 90, 100]}"
proof (cases "loadPdfLib env = None \<and> \<not> cancelled_at env 0
              \<and> (\<exists>ctext pdfDoc. (case direct_text opts of Some t \<Rightarrow> Inr t
                                | None \<Rightarrow> read_texts files []) = Inr ctext \<and> create env = Inr pdfDoc)")
  case False
  then show ?thesis
    by (auto simp: text_try_def Let_def split: option.splits sum.splits)
next
  case True
  then obtain ctext pdfDoc where
    l: "loadPdfLib env = None" "\<not> cancelled_at env 0"
       "(case direct_text opts of Some t \<Rightarrow> Inr t | None \<Rightarrow> read_texts files []) = Inr ctext"
       "create env = Inr pdfDoc" by blast
  define plog2 where
    "plog2 = updateProgress 20 ''Loading font...''
               (updateProgress 10 ''Reading text...''
                  (updateProgress 5 ''Loading PDF library...'' []))"
  define fc where "fc = find_font (or_default (p_fontId opts) DEFAULT_fontId)"
  have p2: "percentages plog2 = [5, 10, 20]" by (simp add: plog2_def)
  obtain r plog4 fstate' where f: "text_font env fenv fstate fc pdfDoc plog2 = (r, plog4, fstate')"
    by (cases "text_font env fenv fstate fc pdfDoc plog2") auto
  from text_font_log [of env fenv fstate fc pdfDoc plog2]
  have p4: "percentages plog4 \<in> {[5, 10, 20], [5, 10, 20, 30], [5, 10, 20, 30, 40]}"
    unfolding f p2 by simp
  show ?thesis
  proof (cases r)
    case (Inl e)
    have "text_try env fenv fstate files opts = (Inl e, plog4, fstate')"
      using l f Inl unfolding text_try_def Let_def plog2_def fc_def by simp
    with p4 show ?thesis by auto
  next
    case (Inr d)
    have eq: "fst (snd (text_try env fenv fstate files opts))
                = snd (text_finish env files (hasDirectText opts) d ctext plog4)"
      using l f Inr unfolding text_try_def Let_def plog2_def fc_def
      by (simp split: prod.splits)
    from text_finish_log [of env files "hasDirectText opts" d ctext plog4] p4
    show ?thesis unfolding eq by auto
  qed
qed

lemma text_process_log:
  "sorted (percentages (fst (snd (text_process env fenv fstate files opts))))
   \<and> (\<forall>p \<in> set (percentages (fst (snd (text_process env fenv fstate files opts)))).
         0 \<le> p \<and> p \<le> 100)"
proof (cases "length files < 1 \<and> \<not> hasDirectText opts")
  case True
  then show ?thesis by (simp add: text_process_def)
next
  case False
  let ?t = "text_try env fenv fstate files opts"
  have "fst (snd (text_process env fenv fstate files opts)) = fst (snd ?t)"
    using False by (auto simp: text_process_def split: prod.splits sum.splits)
  moreover have "sorted (percentages (fst (snd ?t)))
      \<and> (\<forall>p \<in> set (percentages (fst (snd ?t))). 0 \<le> p \<and> p \<le> 100)"
    using text_try_log [of env fenv fstate files opts] by auto
  ultimately show ?thesis by simp
qed

text \<open>
  C7: in every invocation of the sanitize, crop and text-to-pdf processors, whatever
  the input, the options, the environment and the point where the run ends, the
  percentages passed to the progress observer are non-decreasing and lie between 0
  and 100.
\<close>

theorem progress_monotone_bounded:
  "sorted (percentages (snd (sanitize_process env files sopts)))
   \<and> (\<forall>p \<in> set (percentages (snd (sanitize_process env files sopts))). 0 \<le> p \<and> p \<le> 100)
   \<and> sorted (percentages (snd (crop_process env files copts)))
   \<and> (\<forall>p \<in> set (percentages (snd (crop_process env files copts))). 0 \<le> p \<and> p \<le> 100)
   \<and> sorted (percentages (fst (snd (text_process env fenv fstate files topts))))
   \<and> (\<forall>p \<in> set (percentages (fst (snd (text_process env fenv fstate files topts)))).
         0 \<le> p \<and> p \<le> 100)"
  using sanitize_process_log [of env files sopts] crop_process_log [of env files copts]
    text_process_log [of env fenv fstate files topts]
  by blast

theorem progress_monotone_bounded_witness:
  "percentages (snd (sanitize_process demo_pdf_env [demo_file] default_sanitize))
     = [5, 10, 20, 30, 40, 50, 60, 70, 80, 90, 100]
   \<and> sorted (percentages (snd (sanitize_process demo_pdf_env [demo_file] default_sanitize)))
   \<and> percentages (snd (crop_process demo_pdf_env [demo_file]
               \<lparr>cropData = Some [(Finite 1, half_crop), (Finite 2, half_crop), (Finite 7, half_crop)], mode = None\<rparr>))
     = [10, 20, 50, 70, 100]
   \<and> sorted (percentages (snd (crop_process demo_pdf_env [demo_file]
               \<lparr>cropData = Some [(Finite 1, half_crop), (Finite 2, half_crop), (Finite 7, half_crop)], mode = None\<rparr>)))
   \<and> percentages (fst (snd (text_process demo_pdf_env demo_font_env empty_font_state [demo_file]
               \<lparr>p_fontId = Some ''noto-sans'', p_directText = None\<rparr>)))
     = [5, 10, 20, 30, 40, 50, 90, 100]
   \<and> sorted (percentages (fst (snd (text_process demo_pdf_env demo_font_env empty_font_state
               [demo_file] \<lparr>p_fontId = Some ''noto-sans'', p_directText = None\<rparr>))))"
proof -
  have v1: "percentages (snd (sanitize_process demo_pdf_env [demo_file] default_sanitize))
     = [5, 10, 20, 30, 40, 50, 60, 70, 80, 90, 100]"
    by code_simp
  have v2: "percentages (snd (crop_process demo_pdf_env [demo_file]
               \<lparr>cropData = Some [(Finite 1, half_crop), (Finite 2, half_crop), (Finite 7, half_crop)], mode = None\<rparr>))
     = [10, 20, 50, 70, 100]"
    by code_simp
  have v3: "percentages (fst (snd (text_process demo_pdf_env demo_font_env empty_font_state [demo_file]
               \<lparr>p_fontId = Some ''noto-sans'', p_directText = None\<rparr>)))
     = [5, 10, 20, 30, 40, 50, 90, 100]"
    by code_simp
  from v1 v2 v3
    progress_monotone_bounded [of demo_pdf_env "[demo_file]" default_sanitize
      "\<lparr>cropData = Some [(Finite 1, half_crop), (Finite 2, half_crop), (Finite 7, half_crop)], mode = None\<rparr>"
      demo_font_env empty_font_state "\<lparr>p_fontId = Some ''noto-sans'', p_directText = None\<rparr>"]
  show ?thesis by blast
qed

subsection \<open>Cancellation\<close>

text \<open>
  C1: a crop of one page whose cancellation flag is set when the loop polls it. The
  \<open>Error\<close> thrown at the poll is caught by the \<open>catch\<close> of \<open>process\<close>, and the call
  resolves with the code \<open>PROCESSING_FAILED\<close> and the detail \<open>Processing cancelled\<close>,
  not with \<open>PROCESSING_CANCELLED\<close>; the sanitize processor in the same environment
  resolves with \<open>PROCESSING_CANCELLED\<close>. Neither returns a blob.
\<close>

theorem crop_cancellation_reported_as_failure:
  "crop_process (demo_pdf_env\<lparr>cancelled_at := (\<lambda>k. True)\<rparr>) [demo_file]
       \<lparr>cropData = Some [(Finite 1, half_crop)], mode = None\<rparr>
     = (Failure PROCESSING_FAILED ''Failed to crop PDF.'' (Some ''Processing cancelled''),
        [(10, ''Loading PDF library...''), (20, ''Loading PDF...'')])
   \<and> sanitize_process (demo_pdf_env\<lparr>cancelled_at := (\<lambda>k. True)\<rparr>) [demo_file] default_sanitize
     = (Failure PROCESSING_CANCELLED ''Processing was cancelled.'' None,
        [(5, ''Loading PDF library...'')])"
  by code_simp

subsection \<open>Crop modes and page ranges\<close>

text \<open>
  C8: \<open>performDestructiveCrop\<close> is \<open>performMetadataCrop\<close>. For every environment,
  file list and crop data, a crop with mode \<open>destructive\<close> reports the same progress
  as with mode \<open>metadata\<close> (or with no mode), fails with the same failure, and
  succeeds with the same blob and metadata; only the file name differs, by the suffix
  that replaces the first \<open>.pdf\<close> of the input name.
\<close>

theorem destructive_same_as_metadata:
  "performDestructiveCrop env buf cd plog = performMetadataCrop env buf cd plog
   \<and> snd (crop_process env files \<lparr>cropData = cdo, mode = Some destructive\<rparr>)
       = snd (crop_process env files \<lparr>cropData = cdo, mode = Some metadata\<rparr>)
   \<and> crop_process env files \<lparr>cropData = cdo, mode = None\<rparr>
       = crop_process env files \<lparr>cropData = cdo, mode = Some metadata\<rparr>
   \<and> (\<forall>c m d. fst (crop_process env files \<lparr>cropData = cdo, mode = Some metadata\<rparr>) = Failure c m d
         \<longrightarrow> fst (crop_process env files \<lparr>cropData = cdo, mode = Some destructive\<rparr>) = Failure c m d)
   \<and> (\<forall>b fn md. fst (crop_process env files \<lparr>cropData = cdo, mode = Some metadata\<rparr>) = Success b fn md
         \<longrightarrow> fn = replace_first (name_file (files ! 0)) ''.pdf'' ''_cropped.pdf''
           \<and> fst (crop_process env files \<lparr>cropData = cdo, mode = Some destructive\<rparr>)
               = Success b (replace_first (name_file (files ! 0)) ''.pdf'' ''_cropped_flattened.pdf'') md)"
  by (auto simp: crop_process_def crop_try_def performDestructiveCrop_def Let_def
      createErrorOutput_def createSuccessOutput_def
      split: option.splits sum.splits prod.splits if_splits)


theorem destructive_same_as_metadata_witness:
  "fst (crop_process demo_pdf_env [demo_file] \<lparr>cropData = Some [(Finite 1, half_crop)], mode = Some metadata\<rparr>)
     = Success (Blob [1, 0] ''application/pdf'') ''report_cropped.pdf'' [(''pagesCropped'', MNum 1)]
   \<and> fst (crop_process demo_pdf_env [demo_file] \<lparr>cropData = Some [(Finite 1, half_crop)], mode = Some destructive\<rparr>)
     = Success (Blob [1, 0] ''application/pdf'') ''report_cropped_flattened.pdf''
         [(''pagesCropped'', MNum 1)]"
proof -
  have m: "fst (crop_process demo_pdf_env [demo_file]
                  \<lparr>cropData = Some [(Finite 1, half_crop)], mode = Some metadata\<rparr>)
     = Success (Blob [1, 0] ''application/pdf'') ''report_cropped.pdf'' [(''pagesCropped'', MNum 1)]"
    by code_simp
  have n: "replace_first (name_file ([demo_file] ! 0)) ''.pdf'' ''_cropped_flattened.pdf''
             = ''report_cropped_flattened.pdf''"
    by code_simp
  from destructive_same_as_metadata [of demo_pdf_env "[]" "[]" "[]" "[demo_file]" "Some [(Finite 1, half_crop)]"] m
  have "fst (crop_process demo_pdf_env [demo_file]
               \<lparr>cropData = Some [(Finite 1, half_crop)], mode = Some destructive\<rparr>)
     = Success (Blob [1, 0] ''application/pdf'')
         (replace_first (name_file ([demo_file] ! 0)) ''.pdf'' ''_cropped_flattened.pdf'')
         [(''pagesCropped'', MNum 1)]"
    by blast
  with m n show ?thesis by simp
qed

lemma crop_page_idem: "crop_page (crop_page pg c) c = crop_page pg c"
  by (simp add: crop_page_def Let_def)

lemma page_number_eq [simp]: "page_number j = page_number k \<longleftrightarrow> j = k"
  by (simp add: page_number_def)

lemma page_number_index: "array_index (minus_one (page_number j)) = Some j"
  by (simp add: page_number_def)

lemma page_number_not_skipped: "j < length (pages pdf) \<Longrightarrow> \<not> skipped pdf (page_number j)"
  by (simp add: skipped_def page_number_def)

lemma names_page_iff: "names_page pdf n \<longleftrightarrow> (\<exists>j < length (pages pdf). n = page_number j)"
  by (auto simp: names_page_def)

lemma skipped_whole:
  "skipped pdf (Finite (of_int k)) \<longleftrightarrow> k < 1 \<or> int (length (pages pdf)) < k"
proof -
  have m: "minus_one (Finite (of_int k)) = Finite (of_int (k - 1))"
    by simp
  have a: "(of_int (k - 1) :: rat) < 0 \<longleftrightarrow> k < 1"
    by (simp only: of_int_less_0_iff) arith
  have "(of_nat (length (pages pdf)) :: rat) = of_int (int (length (pages pdf)))"
    by simp
  then have b: "(of_nat (length (pages pdf)) :: rat) \<le> of_int (k - 1)
      \<longleftrightarrow> int (length (pages pdf)) < k"
    by (simp only: of_int_le_iff) arith
  show ?thesis
    unfolding skipped_def m less_zero.simps at_least.simps a b ..
qed

lemma crop_loop_result:
  assumes nc: "\<forall>k. \<not> cancelled_at env k"
    and keys: "set pns \<subseteq> fst ` set cd"
    and ok: "\<forall>n \<in> set pns. skipped pdf n \<or> names_page pdf n"
  shows "crop_loop env cd tot pns i pdf plog
           = (Inr (pdf\<lparr>pages :=
                 map (\<lambda>j. if page_number j \<in> set pns
                           then (case map_of cd (page_number j) of
                                   None \<Rightarrow> pages pdf ! j
                                 | Some c \<Rightarrow> crop_page (pages pdf ! j) c)
                           else pages pdf ! j) [0..<length (pages pdf)]\<rparr>),
              snd (crop_loop env cd tot pns i pdf plog))
       \<and> length (snd (crop_loop env cd tot pns i pdf plog))
           = length plog + length (filter (\<lambda>n. \<not> skipped pdf n) pns)"
  using keys ok
proof (induction pns arbitrary: i pdf plog)
  case Nil
  have "map (\<lambda>j. pages pdf ! j) [0..<length (pages pdf)] = pages pdf"
    by (rule map_nth)
  then show ?case by simp
next
  case (Cons pageNum rest)
  note crop_loop.simps [simp del]
  have nci: "\<not> cancelled_at env i" using nc by simp
  from Cons.prems have rest: "set rest \<subseteq> fst ` set cd" by simp
  from Cons.prems have okr: "\<forall>n \<in> set rest. skipped pdf n \<or> names_page pdf n" by simp
  show ?case
  proof (cases "skipped pdf pageNum")
    case True
    have no: "page_number j \<noteq> pageNum" if "j < length (pages pdf)" for j
      using True that page_number_not_skipped [of j pdf] by auto
    have eqm: "map (\<lambda>j. if page_number j \<in> set (pageNum # rest)
                    then (case map_of cd (page_number j) of
                            None \<Rightarrow> pages pdf ! j | Some c \<Rightarrow> crop_page (pages pdf ! j) c)
                    else pages pdf ! j) [0..<length (pages pdf)]
        = map (\<lambda>j. if page_number j \<in> set rest
                    then (case map_of cd (page_number j) of
                            None \<Rightarrow> pages pdf ! j | Some c \<Rightarrow> crop_page (pages pdf ! j) c)
                    else pages pdf ! j) [0..<length (pages pdf)]"
      using no by (intro map_cong) auto
    have flt: "filter (\<lambda>n. \<not> skipped pdf n) (pageNum # rest) = filter (\<lambda>n. \<not> skipped pdf n) rest"
      using True by simp
    show ?thesis
      unfolding crop_loop_skip [OF nci True] eqm flt
      by (rule Cons.IH [OF rest okr])
  next
    case False
    with Cons.prems have "names_page pdf pageNum" by simp
    then obtain idx where idx: "idx < length (pages pdf)" "pageNum = page_number idx"
      by (auto simp: names_page_iff)
    have ai: "array_index (minus_one pageNum) = Some idx"
      by (simp add: idx(2) page_number_index)
    from Cons.prems have "pageNum \<in> fst ` set cd" by simp
    then obtain c where c: "map_of cd pageNum = Some c"
      by (cases "map_of cd pageNum") (auto simp: map_of_eq_None_iff)
    let ?pdf' = "pdf\<lparr>pages := (pages pdf)[idx := crop_page (pages pdf ! idx) c]\<rparr>"
    let ?plog' = "updateProgress (30 + (60 * of_nat (i + 1) / of_nat tot))
                    (''Cropping page '' @ string_of_number pageNum @ ''...'') plog"
    have r': "skipped ?pdf' = skipped pdf"
      by (rule ext) (simp add: skipped_def)
    have n': "names_page ?pdf' = names_page pdf"
      by (rule ext) (simp add: names_page_def)
    have okr': "\<forall>n \<in> set rest. skipped ?pdf' n \<or> names_page ?pdf' n"
      using okr unfolding r' n' .
    have pg: "map (\<lambda>j. if page_number j \<in> set rest
                    then (case map_of cd (page_number j) of
                            None \<Rightarrow> pages ?pdf' ! j | Some c \<Rightarrow> crop_page (pages ?pdf' ! j) c)
                    else pages ?pdf' ! j) [0..<length (pages ?pdf')]
        = map (\<lambda>j. if page_number j \<in> set (pageNum # rest)
                    then (case map_of cd (page_number j) of
                            None \<Rightarrow> pages pdf ! j | Some c \<Rightarrow> crop_page (pages pdf ! j) c)
                    else pages pdf ! j) [0..<length (pages pdf)]"
    proof (rule nth_equalityI)
      show "length (map (\<lambda>j. if page_number j \<in> set rest
                    then (case map_of cd (page_number j) of
                            None \<Rightarrow> pages ?pdf' ! j | Some c \<Rightarrow> crop_page (pages ?pdf' ! j) c)
                    else pages ?pdf' ! j) [0..<length (pages ?pdf')])
          = length (map (\<lambda>j. if page_number j \<in> set (pageNum # rest)
                    then (case map_of cd (page_number j) of
                            None \<Rightarrow> pages pdf ! j | Some c \<Rightarrow> crop_page (pages pdf ! j) c)
                    else pages pdf ! j) [0..<length (pages pdf)])"
        by simp
    next
      fix j
      assume "j < length (map (\<lambda>j. if page_number j \<in> set rest
                    then (case map_of cd (page_number j) of
                            None \<Rightarrow> pages ?pdf' ! j | Some c \<Rightarrow> crop_page (pages ?pdf' ! j) c)
                    else pages ?pdf' ! j) [0..<length (pages ?pdf')])"
      then have j: "j < length (pages pdf)" by simp
      show "map (\<lambda>j. if page_number j \<in> set rest
                    then (case map_of cd (page_number j) of
                            None \<Rightarrow> pages ?pdf' ! j | Some c \<Rightarrow> crop_page (pages ?pdf' ! j) c)
                    else pages ?pdf' ! j) [0..<length (pages ?pdf')] ! j
          = map (\<lambda>j. if page_number j \<in> set (pageNum # rest)
                    then (case map_of cd (page_number j) of
                            None \<Rightarrow> pages pdf ! j | Some c \<Rightarrow> crop_page (pages pdf ! j) c)
                    else pages pdf ! j) [0..<length (pages pdf)] ! j"
      proof (cases "j = idx")
        case True
        then show ?thesis using j idx c by (simp add: crop_page_idem)
      next
        case False
        then have "page_number j \<noteq> pageNum" using idx by simp
        with False j show ?thesis by (simp split: option.splits)
      qed
    qed
    have len: "length (filter (\<lambda>n. \<not> skipped pdf n) (pageNum # rest))
                 = Suc (length (filter (\<lambda>n. \<not> skipped pdf n) rest))"
      using False by simp
    from Cons.IH [OF rest okr', of "Suc i" ?plog'] show ?thesis
      unfolding crop_loop_crop [OF nci False ai c] pg r' len
      by (simp add: updateProgress_def)
  qed
qed

lemma cropped_pages_keys:
  "map (\<lambda>j. if page_number j \<in> set (map fst cd)
             then (case map_of cd (page_number j) of
                     None \<Rightarrow> pgs ! j | Some c \<Rightarrow> crop_page (pgs ! j) c)
             else pgs ! j) [0..<length pgs]
     = cropped_pages cd pgs"
  unfolding cropped_pages_def
  by (intro map_cong refl) (force simp: map_of_eq_None_iff image_iff split: option.splits dest: map_of_SomeD)

lemma map_of_filter_key:
  "map_of (filter (\<lambda>(k, v). P k) xs) k = (if P k then map_of xs k else None)"
  by (induction xs) auto

lemma cropped_pages_not_skipped:
  "cropped_pages (filter (\<lambda>(n, c). \<not> skipped pdf n) cd) (pages pdf) = cropped_pages cd (pages pdf)"
  unfolding cropped_pages_def
  by (intro map_cong refl) (auto simp: map_of_filter_key page_number_not_skipped)

text \<open>
  C9 (as the code has it): the range test skips an entry whose page number \<open>n\<close> has
  \<open>n - 1 < 0\<close> or \<open>n - 1 >= pageCount\<close>; among whole numbers these are exactly the
  numbers outside \<open>1..pageCount\<close>. When the library loads, the file is read and
  parsed, no cancellation is seen, the save succeeds, and every entry of a non-empty
  \<open>cropData\<close> is either skipped by that test or the number of a page, the call returns
  Success. The saved document is the loaded one with exactly the pages cropped that
  \<open>cropData\<close> names: skipped entries change nothing (the result is the same as without
  them, and the pages are untouched when every entry is skipped), raise no error and
  make no progress report, while \<open>pagesCropped\<close> is the number of all entries of
  \<open>cropData\<close>.
\<close>

theorem crop_skips_out_of_range:
  assumes env: "loadPdfLib env = None" "\<forall>k. \<not> cancelled_at env k"
      "\<forall>d. save env d = Inr (serialize d)"
    and input: "arrayBuffer_file f = Inr buf" "PDFDocument_load env buf = Inr pdf" "cd \<noteq> []"
    and pagenums: "\<forall>n \<in> fst ` set cd. skipped pdf n \<or> names_page pdf n"
  shows "fst (crop_process env [f] \<lparr>cropData = Some cd, mode = m\<rparr>)
           = Success (Blob (serialize (pdf\<lparr>pages := cropped_pages cd (pages pdf)\<rparr>))
                        ''application/pdf'')
               (replace_first (name_file f) ''.pdf''
                  (if m = Some destructive then ''_cropped_flattened.pdf'' else ''_cropped.pdf''))
               [(''pagesCropped'', MNum (length cd))]
       \<and> cropped_pages cd (pages pdf)
           = cropped_pages (filter (\<lambda>(n, c). \<not> skipped pdf n) cd) (pages pdf)
       \<and> ((\<forall>n \<in> fst ` set cd. skipped pdf n) \<longrightarrow> cropped_pages cd (pages pdf) = pages pdf)
       \<and> length (snd (crop_process env [f] \<lparr>cropData = Some cd, mode = m\<rparr>))
           = 3 + length (filter (\<lambda>(n, c). \<not> skipped pdf n) cd)
       \<and> (\<forall>k. skipped pdf (Finite (of_int k)) \<longleftrightarrow> k < 1 \<or> int (length (pages pdf)) < k)"
proof -
  let ?plog2 = "updateProgress 20 ''Loading PDF...'' (updateProgress 10 ''Loading PDF library...'' [])"
  let ?loop = "crop_loop env cd (length cd) (map fst cd) 0 pdf ?plog2"
  let ?pdf' = "pdf\<lparr>pages := cropped_pages cd (pages pdf)\<rparr>"
  obtain r plog3 where rp: "?loop = (r, plog3)"
    by (cases ?loop)
  have ok: "\<forall>n \<in> set (map fst cd). skipped pdf n \<or> names_page pdf n"
    using pagenums by simp
  from crop_loop_result [OF env(2) _ ok, of cd "length cd" 0 ?plog2]
  have loop: "?loop = (Inr ?pdf', plog3)"
    and len: "length plog3 = length ?plog2 + length (filter (\<lambda>n. \<not> skipped pdf n) (map fst cd))"
    unfolding cropped_pages_keys rp by simp_all
  have flt: "length (filter (\<lambda>n. \<not> skipped pdf n) (map fst cd))
               = length (filter (\<lambda>(n, c). \<not> skipped pdf n) cd)"
    by (induction cd) auto
  have meta: "performMetadataCrop env buf cd ?plog2 = (Inr (serialize ?pdf'), plog3)"
    using input(2) env(3) loop
    by (simp add: performMetadataCrop_def Let_def split: prod.splits sum.splits)
  have tried: "crop_try env f \<lparr>cropData = Some cd, mode = m\<rparr> cd
      = (Inr (Success (Blob (serialize ?pdf') ''application/pdf'')
               (replace_first (name_file f) ''.pdf''
                  (if m = Some destructive then ''_cropped_flattened.pdf'' else ''_cropped.pdf''))
               [(''pagesCropped'', MNum (length cd))]),
         updateProgress 100 ''Complete!'' plog3)"
    using env(1) input(1) meta
    by (simp add: crop_try_def Let_def performDestructiveCrop_def createSuccessOutput_def)
  have proc: "crop_process env [f] \<lparr>cropData = Some cd, mode = m\<rparr>
      = (Success (Blob (serialize ?pdf') ''application/pdf'')
               (replace_first (name_file f) ''.pdf''
                  (if m = Some destructive then ''_cropped_flattened.pdf'' else ''_cropped.pdf''))
               [(''pagesCropped'', MNum (length cd))],
         updateProgress 100 ''Complete!'' plog3)"
    using input(3) tried by (simp add: crop_process_def)
  have none: "cropped_pages cd (pages pdf) = pages pdf" if "\<forall>n \<in> fst ` set cd. skipped pdf n"
  proof -
    have "filter (\<lambda>(n, c). \<not> skipped pdf n) cd = []"
      using that by (auto simp: filter_empty_conv)
    then have "cropped_pages cd (pages pdf) = cropped_pages [] (pages pdf)"
      using cropped_pages_not_skipped [of pdf cd] by simp
    also have "\<dots> = pages pdf"
      by (simp add: cropped_pages_def map_nth)
    finally show ?thesis .
  qed
  have whole: "\<forall>k. skipped pdf (Finite (of_int k)) \<longleftrightarrow> k < 1 \<or> int (length (pages pdf)) < k"
    using skipped_whole by blast
  have 1: "fst (crop_process env [f] \<lparr>cropData = Some cd, mode = m\<rparr>)
           = Success (Blob (serialize ?pdf') ''application/pdf'')
               (replace_first (name_file f) ''.pdf''
                  (if m = Some destructive then ''_cropped_flattened.pdf'' else ''_cropped.pdf''))
               [(''pagesCropped'', MNum (length cd))]"
    by (simp add: proc)
  have 4: "length (snd (crop_process env [f] \<lparr>cropData = Some cd, mode = m\<rparr>))
           = 3 + length (filter (\<lambda>(n, c). \<not> skipped pdf n) cd)"
    using len flt by (simp add: proc updateProgress_def)
  from 1 cropped_pages_not_skipped [of pdf cd, symmetric] none 4 whole
  show ?thesis by blast
qed

theorem crop_skips_out_of_range_witness:
  "crop_process demo_pdf_env [demo_file]
       \<lparr>cropData = Some [(Finite 1, half_crop), (Finite 7, half_crop)], mode = None\<rparr>
     = (Success (Blob [1, 0] ''application/pdf'') ''report_cropped.pdf'' [(''pagesCropped'', MNum 2)],
        [(10, ''Loading PDF library...''), (20, ''Loading PDF...''), (60, ''Cropping page 1...''),
         (100, ''Complete!'')])
   \<and> fst (crop_process demo_pdf_env [demo_file]
            \<lparr>cropData = Some [(Finite 1, half_crop), (Finite 7, half_crop)], mode = None\<rparr>)
     = Success (Blob (demo_serialize
                        (demo_doc\<lparr>pages := cropped_pages [(Finite 1, half_crop), (Finite 7, half_crop)]
                                              (pages demo_doc)\<rparr>))
                  ''application/pdf'')
         (replace_first (name_file demo_file) ''.pdf'' ''_cropped.pdf'')
         [(''pagesCropped'', MNum (length [(Finite 1, half_crop), (Finite 7, half_crop)]))]
   \<and> cropped_pages [(Finite 1, half_crop), (Finite 7, half_crop)] (pages demo_doc)
     = [crop_page a4_page half_crop, a4_page]
   \<and> names_page demo_doc (Finite 1) \<and> skipped demo_doc (Finite 7)"
proof -
  have v: "crop_process demo_pdf_env [demo_file]
             \<lparr>cropData = Some [(Finite 1, half_crop), (Finite 7, half_crop)], mode = None\<rparr>
     = (Success (Blob [1, 0] ''application/pdf'') ''report_cropped.pdf'' [(''pagesCropped'', MNum 2)],
        [(10, ''Loading PDF library...''), (20, ''Loading PDF...''), (60, ''Cropping page 1...''),
         (100, ''Complete!'')])"
    by code_simp
  have c: "cropped_pages [(Finite 1, half_crop), (Finite 7, half_crop)] (pages demo_doc)
     = [crop_page a4_page half_crop, a4_page]"
    by (simp add: cropped_pages_def demo_doc_def upt_rec page_number_def)
  have n: "names_page demo_doc (Finite 1)" "skipped demo_doc (Finite 7)"
    by (simp_all add: names_page_def skipped_def demo_doc_def page_number_def upt_rec)
  have e: "loadPdfLib demo_pdf_env = None" "\<forall>k. \<not> cancelled_at demo_pdf_env k"
    "\<forall>d. save demo_pdf_env d = Inr (demo_serialize d)"
    "arrayBuffer_file demo_file = Inr [37, 80, 68, 70]"
    "PDFDocument_load demo_pdf_env [37, 80, 68, 70] = Inr demo_doc"
    "[(Finite 1, half_crop), (Finite 7, half_crop)] \<noteq> []"
    "\<forall>n \<in> fst ` set [(Finite 1, half_crop), (Finite 7, half_crop)].
        skipped demo_doc n \<or> names_page demo_doc n"
    using n by (simp_all add: demo_pdf_env_def demo_file_def)
  from crop_skips_out_of_range [OF e, of None]
  have "fst (crop_process demo_pdf_env [demo_file]
            \<lparr>cropData = Some [(Finite 1, half_crop), (Finite 7, half_crop)], mode = None\<rparr>)
     = Success (Blob (demo_serialize
                        (demo_doc\<lparr>pages := cropped_pages [(Finite 1, half_crop), (Finite 7, half_crop)]
                                              (pages demo_doc)\<rparr>))
                  ''application/pdf'')
         (replace_first (name_file demo_file) ''.pdf'' ''_cropped.pdf'')
         [(''pagesCropped'', MNum (length [(Finite 1, half_crop), (Finite 7, half_crop)]))]"
    by simp
  with v c n show ?thesis by blast
qed

text \<open>
  On the two-page document, an entry for the number 2.5, which is outside \<open>1..2\<close>, is
  not skipped: \<open>1.5 >= 2\<close> is false, no page has the index 1.5, and the call fails.
  The same holds for the key \<open>NaN\<close>.
\<close>

theorem crop_fractional_page_number_fails:
  "length (pages demo_doc) = 2
   \<and> \<not> ((1 :: rat) \<le> 5 / 2 \<and> (5 / 2 :: rat) \<le> 2)
   \<and> \<not> skipped demo_doc (Finite (5 / 2))
   \<and> crop_process demo_pdf_env [demo_file]
         \<lparr>cropData = Some [(Finite (5 / 2), half_crop)], mode = None\<rparr>
       = (Failure PROCESSING_FAILED ''Failed to crop PDF.''
            (Some ''index is not the index of a page''),
          [(10, ''Loading PDF library...''), (20, ''Loading PDF...'')])
   \<and> crop_process demo_pdf_env [demo_file] \<lparr>cropData = Some [(NaN, half_crop)], mode = None\<rparr>
       = (Failure PROCESSING_FAILED ''Failed to crop PDF.''
            (Some ''index is not the index of a page''),
          [(10, ''Loading PDF library...''), (20, ''Loading PDF...'')])"
proof -
  have 1: "length (pages demo_doc) = 2"
    by (simp add: demo_doc_def)
  have 2: "\<not> skipped demo_doc (Finite (5 / 2))"
    by (simp add: skipped_def demo_doc_def)
  have 3: "crop_process demo_pdf_env [demo_file]
         \<lparr>cropData = Some [(Finite (5 / 2), half_crop)], mode = None\<rparr>
       = (Failure PROCESSING_FAILED ''Failed to crop PDF.''
            (Some ''index is not the index of a page''),
          [(10, ''Loading PDF library...''), (20, ''Loading PDF...'')])"
    by code_simp
  have 4: "crop_process demo_pdf_env [demo_file] \<lparr>cropData = Some [(NaN, half_crop)], mode = None\<rparr>
       = (Failure PROCESSING_FAILED ''Failed to crop PDF.''
            (Some ''index is not the index of a page''),
          [(10, ''Loading PDF library...''), (20, ''Loading PDF...'')])"
    by code_simp
  from 1 2 3 4 show ?thesis by simp
qed

end
